theory Spec2Isabelle
  imports Complex_Main
begin

section \<open>Documents of the content collections\<close>

text \<open>
  A content document is a MongoDB document of one of the four collections. Its array
  attributes hold either plain strings (the genres of a movie) or sub-documents with a
  \<open>name\<close> (the genres of an anime). A sub-document carries the address of the object
  it is, since a JavaScript \<open>Set\<close> compares objects by identity and strings by value.
  An attribute that is absent reads as the empty array (\<open>field || []\<close> in the source).
  JavaScript numbers are modelled as reals; the literals are the decimal fractions
  they denote.
\<close>

datatype elem = Str string | Obj nat "string option"

record content =
  c_id :: "string option"
  c_alt_id :: "string option"
  title :: "string option"
  title_en :: "string option"
  title_original :: "string option"
  genres :: "elem list"
  demographics :: "elem list"
  themes :: "elem list"
  studios :: "elem list"
  production_companies :: "elem list"
  actors :: "elem list"
  networks :: "elem list"
  platforms :: "elem list"
  developers :: "elem list"
  publishers :: "elem list"

section \<open>The similarity scorer\<close>

text \<open>
  \<open>compareArrays\<close>: both arrays become sets (duplicates dropped), the members of the
  first that the second has are counted, and the quotient with the size of the union
  is returned; an empty side gives 0.
\<close>

definition compareArrays :: "'a list \<Rightarrow> 'a list \<Rightarrow> real" where
  "compareArrays array1 array2 =
     (if array1 = [] \<or> array2 = [] then 0
      else
        let set1 = remdups array1;
            set2 = remdups array2;
            intersectionCount = length (filter (\<lambda>item. item \<in> set set2) set1);
            unionCount = length set1 + length set2 - intersectionCount
        in if unionCount = 0 then 0 else real intersectionCount / real unionCount)"

text \<open>
  \<open>getFieldArrayValues obj field 'name'\<close>: the \<open>name\<close> of every member, with the
  falsy ones (absent, or the empty string) filtered out. A plain string has no
  property \<open>name\<close>.
\<close>

fun subField_name :: "elem \<Rightarrow> string option" where
  "subField_name (Str s) = None"
| "subField_name (Obj a n) = n"

definition getFieldArrayValues :: "elem list \<Rightarrow> string list" where
  "getFieldArrayValues array =
     List.map_filter
       (\<lambda>item. case subField_name item of
                  None \<Rightarrow> None
                | Some s \<Rightarrow> if s = [] then None else Some s)
       array"

definition calculateMetadataSimilarity :: "content \<Rightarrow> content \<Rightarrow> string \<Rightarrow> real" where
  "calculateMetadataSimilarity content1 content2 contentType =
     (let score = 0 + 5 / 10;
          score =
            (if contentType = ''anime'' then
               score
               + compareArrays (getFieldArrayValues (genres content1))
                               (getFieldArrayValues (genres content2)) * (15 / 100)
               + compareArrays (getFieldArrayValues (demographics content1))
                               (getFieldArrayValues (demographics content2)) * (15 / 100)
               + compareArrays (getFieldArrayValues (themes content1))
                               (getFieldArrayValues (themes content2)) * (10 / 100)
               + compareArrays (getFieldArrayValues (studios content1))
                               (getFieldArrayValues (studios content2)) * (10 / 100)
             else if contentType = ''movie'' then
               score
               + compareArrays (genres content1) (genres content2) * (20 / 100)
               + compareArrays (getFieldArrayValues (production_companies content1))
                               (getFieldArrayValues (production_companies content2)) * (10 / 100)
               + compareArrays (take 3 (getFieldArrayValues (actors content1)))
                               (take 3 (getFieldArrayValues (actors content2))) * (20 / 100)
             else if contentType = ''tvseries'' then
               score
               + compareArrays (genres content1) (genres content2) * (20 / 100)
               + compareArrays (getFieldArrayValues (networks content1))
                               (getFieldArrayValues (networks content2)) * (15 / 100)
               + compareArrays (getFieldArrayValues (production_companies content1))
                               (getFieldArrayValues (production_companies content2)) * (5 / 100)
               + compareArrays (take 5 (getFieldArrayValues (actors content1)))
                               (take 5 (getFieldArrayValues (actors content2))) * (10 / 100)
             else if contentType = ''game'' then
               score
               + compareArrays (genres content1) (genres content2) * (20 / 100)
               + compareArrays (platforms content1) (platforms content2) * (15 / 100)
               + compareArrays (developers content1) (developers content2) * (10 / 100)
               + compareArrays (publishers content1) (publishers content2) * (5 / 100)
             else score)
      in min (99 / 100) score)"

text \<open>The attributes that the scorer compares for a content type, as stored.\<close>

definition compared_attributes :: "string \<Rightarrow> content \<Rightarrow> elem list list" where
  "compared_attributes contentType c =
     (if contentType = ''anime'' then [genres c, demographics c, themes c, studios c]
      else if contentType = ''movie'' then [genres c, production_companies c, actors c]
      else if contentType = ''tvseries'' then
        [genres c, networks c, production_companies c, actors c]
      else if contentType = ''game'' then [genres c, platforms c, developers c, publishers c]
      else [])"


section \<open>Series identity of a title\<close>

text \<open>
  Titles are strings of code units below 256. The three patterns of the source are
  regular expressions of the shape \<open>/^(.*?)R/i\<close>. \<open>R\<close> is written in the syntax
  below; a class matches one code unit, compared after case folding as the flag
  \<open>i\<close> requires, and \<open>PlusChr\<close> is the greedy \<open>+\<close> on a class, the only
  repetition that \<open>R\<close> uses.
\<close>

datatype regex =
    Chr "char list"
  | PlusChr "char list"
  | Word string
  | Seq regex regex
  | Alt regex regex
  | EndOfInput

definition canonicalize :: "char \<Rightarrow> char" where
  "canonicalize c =
     (case map_of (zip ''abcdefghijklmnopqrstuvwxyz'' ''ABCDEFGHIJKLMNOPQRSTUVWXYZ'') c of
        Some u \<Rightarrow> u
      | None \<Rightarrow> c)"

definition in_class :: "char list \<Rightarrow> char \<Rightarrow> bool" where
  "in_class cs c = (canonicalize c \<in> set (map canonicalize cs))"

text \<open>
  \<open>plus_class cs s\<close>: what is left of \<open>s\<close> after one or more members of the class,
  the longest run first, as backtracking tries them.
\<close>

fun plus_class :: "char list \<Rightarrow> string \<Rightarrow> string list" where
  "plus_class cs [] = []"
| "plus_class cs (c # s) = (if in_class cs c then plus_class cs s @ [s] else [])"

text \<open>
  \<open>run r s\<close>: every way of matching \<open>r\<close> at the start of \<open>s\<close>, as the rest of the
  input that the match leaves, in the order in which backtracking finds them.
\<close>

fun run :: "regex \<Rightarrow> string \<Rightarrow> string list" where
  "run (Chr cs) s = (case s of [] \<Rightarrow> [] | c # s' \<Rightarrow> if in_class cs c then [s'] else [])"
| "run (PlusChr cs) s = plus_class cs s"
| "run (Word w) s =
     (if length w \<le> length s \<and> map canonicalize (take (length w) s) = map canonicalize w
      then [drop (length w) s] else [])"
| "run (Seq r1 r2) s = concat (map (run r2) (run r1 s))"
| "run (Alt r1 r2) s = run r1 s @ run r2 s"
| "run EndOfInput s = (if s = [] then [[]] else [])"

definition whitespace :: "char list" where
  "whitespace = [CHR 0x09, CHR 0x0A, CHR 0x0B, CHR 0x0C, CHR 0x0D, CHR '' '', CHR 0xA0]"

definition line_terminators :: "char list" where
  "line_terminators = [CHR 0x0A, CHR 0x0D]"

text \<open>
  \<open>title.match(/^(.*?)R/i)\<close>: the lazy group takes the shortest prefix, free of line
  terminators, after which \<open>R\<close> matches; the result is that prefix (group 1), or
  \<open>None\<close> for \<open>null\<close>.
\<close>

fun lazy_prefix :: "regex \<Rightarrow> string \<Rightarrow> string \<Rightarrow> string option" where
  "lazy_prefix r acc [] = (if run r [] \<noteq> [] then Some acc else None)"
| "lazy_prefix r acc (c # s) =
     (if run r (c # s) \<noteq> [] then Some acc
      else if c \<in> set line_terminators then None
      else lazy_prefix r (acc @ [c]) s)"

definition match_group1 :: "regex \<Rightarrow> string \<Rightarrow> string option" where
  "match_group1 r t = lazy_prefix r [] t"

text \<open>\<open>(?:\s+|-|:)\<close>, \<open>(?:\d+|[IVXLCDM]+)\<close> and \<open>(?:\s+|-|:|$)\<close>.\<close>

definition separator :: regex where
  "separator = Alt (PlusChr whitespace) (Alt (Chr ''-'') (Chr '':''))"

definition numeral_token :: regex where
  "numeral_token = Alt (PlusChr ''0123456789'') (PlusChr ''IVXLCDM'')"

definition separator_or_end :: regex where
  "separator_or_end =
     Alt (PlusChr whitespace) (Alt (Chr ''-'') (Alt (Chr '':'') EndOfInput))"

definition numberPattern :: regex where
  "numberPattern = Seq separator (Seq numeral_token separator_or_end)"

definition seasonPattern :: regex where
  "seasonPattern =
     Seq separator
       (Seq (Alt (Word ''season'') (Alt (Word ''part'') (Word ''chapter'')))
         (Seq separator (Seq numeral_token separator_or_end)))"

definition franchisePattern :: regex where
  "franchisePattern =
     Seq separator
       (Seq (Alt (Word ''the'') (Alt (Word ''a'') (Alt (Word ''an'') (Alt (Word ''origins'')
              (Alt (Word ''returns'') (Alt (Word ''rises'') (Alt (Word ''forever'')
              (Word ''begins''))))))))
         separator_or_end)"

text \<open>
  \<open>title.match(/\d+|[IVXLCDM]+/i)\<close>: the leftmost match of the unanchored pattern,
  as the text matched.
\<close>

fun first_match :: "regex \<Rightarrow> string \<Rightarrow> string option" where
  "first_match r [] = (case run r [] of [] \<Rightarrow> None | rest # _ \<Rightarrow> Some [])"
| "first_match r (c # s) =
     (case run r (c # s) of
        [] \<Rightarrow> first_match r s
      | rest # _ \<Rightarrow> Some (take (length (c # s) - length rest) (c # s)))"

definition trim :: "string \<Rightarrow> string" where
  "trim s =
     rev (dropWhile (\<lambda>c. c \<in> set whitespace) (rev (dropWhile (\<lambda>c. c \<in> set whitespace) s)))"

record series_info =
  seriesName :: "string option"
  seriesNumber :: "string option"

definition extractSeriesInfo :: "string \<Rightarrow> series_info" where
  "extractSeriesInfo t =
     (let matches =
            List.map_filter (\<lambda>m. m)
              [match_group1 numberPattern t,
               match_group1 seasonPattern t,
               match_group1 franchisePattern t]
      in case matches of
           m # _ \<Rightarrow>
             \<lparr>seriesName = Some (trim m), seriesNumber = first_match numeral_token t\<rparr>
         | [] \<Rightarrow>
             if length t > 4 then \<lparr>seriesName = Some t, seriesNumber = None\<rparr>
             else \<lparr>seriesName = None, seriesNumber = None\<rparr>)"

text \<open>\<open>escapeRegex\<close>: a backslash before every metacharacter.\<close>

definition escapeRegex :: "string \<Rightarrow> string" where
  "escapeRegex s =
     concat (map (\<lambda>c. if c \<in> set (''.*+?^${}()|[]'' @ [CHR 0x5C]) then [CHR 0x5C, c]
                      else [c]) s)"


section \<open>Errors and the external services\<close>

text \<open>
  A thrown value is an error object: its name, its \<open>message\<close>, and, for the errors of
  the embedding service, \<open>status\<close> and \<open>error.type\<close>. A function that can throw
  returns \<open>Inl\<close> of the error.
\<close>

record js_error =
  e_name :: string
  e_message :: "string option"
  e_status :: "nat option"
  e_type :: "string option"

definition TypeError :: "string \<Rightarrow> js_error" where
  "TypeError msg = \<lparr>e_name = ''TypeError'', e_message = Some msg, e_status = None, e_type = None\<rparr>"

definition ReferenceError :: "string \<Rightarrow> js_error" where
  "ReferenceError msg =
     \<lparr>e_name = ''ReferenceError'', e_message = Some msg, e_status = None, e_type = None\<rparr>"

definition Error :: "string \<Rightarrow> js_error" where
  "Error msg = \<lparr>e_name = ''Error'', e_message = Some msg, e_status = None, e_type = None\<rparr>"

text \<open>Truthiness of a value that is a string or absent: present and not empty.\<close>

definition truthy :: "string option \<Rightarrow> bool" where
  "truthy v = (case v of None \<Rightarrow> False | Some s \<Rightarrow> s \<noteq> [])"

definition getCollectionName :: "string \<Rightarrow> js_error + string" where
  "getCollectionName type =
     (if type = ''movie'' then Inr ''movies''
      else if type = ''tvseries'' then Inr ''tv-series''
      else if type = ''anime'' then Inr ''animes''
      else if type = ''game'' then Inr ''games''
      else Inl (Error (''Unknown content type: '' @ type)))"

text \<open>
  The queries that the recommendation code sends. A title query asks for the documents
  one of whose three titles matches the regular expression, case-insensitively, and
  whose \<open>_id\<close> is not the excluded one, at most five of them.
\<close>

datatype id_key = StringId string | ObjectId string

record title_query =
  q_regex :: string
  q_exclude :: "string option"

record user_list_entry =
  movie_id :: "string option"
  tvseries_id :: "string option"
  tv_id :: "string option"
  anime_id :: "string option"
  game_id :: "string option"

record user_lists =
  anime_lists :: "user_list_entry list option"
  game_lists :: "user_list_entry list option"
  movie_watch_lists :: "user_list_entry list option"
  tvseries_watch_lists :: "user_list_entry list option"

text \<open>
  A member of \<open>userIds\<close>: a string, or an object. An object is turned into a string
  by its \<open>toString\<close>, which returns a string or throws a value; the value thrown is
  an error object, or \<open>null\<close> or \<open>undefined\<close> (\<open>None\<close>).
\<close>

datatype user_id = Id string | Id_object "js_error option + string"

fun to_string :: "user_id \<Rightarrow> js_error option + string" where
  "to_string (Id s) = Inr s"
| "to_string (Id_object r) = r"

text \<open>A match of the vector index: its id, its score and \<open>metadata?.type\<close>.\<close>

record index_match =
  m_id :: string
  m_score :: real
  m_type :: "string option"

text \<open>
  The document store and the vector index, as the answers they give:
  \<^item> \<open>mongo_connect\<close>: connecting the client when it is not connected (\<open>None\<close>: no error);
  \<^item> \<open>aggregate_user_lists\<close>: the aggregation over \<open>user-lists\<close> for a user id;
  \<^item> \<open>find_by_ids\<close>: \<open>collection.find({$or: ...}).toArray()\<close>;
  \<^item> \<open>find_by_title\<close>: \<open>collection.find(query).limit(5).toArray()\<close>;
  \<^item> \<open>find_one\<close>: \<open>collection.findOne({_id: ...})\<close>;
  \<^item> \<open>new_ObjectId\<close>: the driver's constructor, which throws on a string that is no
    object id (\<open>None\<close>);
  \<^item> \<open>index_query\<close>: \<open>index.query({id, topK, includeMetadata})\<close>, whose answer may
    lack \<open>matches\<close>.
\<close>

record world =
  mongo_connect :: "js_error option"
  aggregate_user_lists :: "user_id \<Rightarrow> js_error + user_lists list"
  find_by_ids :: "string \<Rightarrow> id_key list \<Rightarrow> js_error + content list"
  find_by_title :: "string \<Rightarrow> title_query \<Rightarrow> js_error + content list"
  find_one :: "string \<Rightarrow> id_key \<Rightarrow> js_error + content option"
  new_ObjectId :: "string \<Rightarrow> string option"
  index_query :: "string \<Rightarrow> nat \<Rightarrow> js_error + index_match list option"

text \<open>A recommendation: \<open>{id, score, type, data}\<close>.\<close>

record recommendation =
  rec_id :: string
  rec_score :: real
  rec_type :: string
  rec_data :: content

section \<open>Sequel detection\<close>

text \<open>
  The inner loop of \<open>findSequelsAndSeries\<close>: each scored document is pushed, and the
  loop is left as soon as the list of all recommendations has three members.
\<close>

fun push_scored :: "recommendation list \<Rightarrow> recommendation list \<Rightarrow> recommendation list" where
  "push_scored recommendations [] = recommendations"
| "push_scored recommendations (r # scored) =
     (let recommendations = recommendations @ [r]
      in if length recommendations \<ge> 3 then recommendations
         else push_scored recommendations scored)"

text \<open>
  One round of the loop over the consumed items. \<open>Next\<close>: the loop goes on with the next
  item (the end of the body, \<open>continue\<close>, or an error caught for this item).
  \<open>Stop\<close>: the loop is left, by \<open>break\<close> or through the outer \<open>catch\<close>, and the
  recommendations found so far are returned. An item that is \<open>null\<close> or
  \<open>undefined\<close> (\<open>None\<close>) throws at \<open>content.title\<close>; the handler of the item reads
  \<open>content._id\<close> and throws again, which the outer handler catches.
\<close>

datatype loop_step = Next "recommendation list" | Stop "recommendation list"

text \<open>\<open>content.title || content.title_en || content.title_original || ''\<close>\<close>

definition content_title :: "content \<Rightarrow> string" where
  "content_title content =
     (if truthy (title content) then the (title content)
      else if truthy (title_en content) then the (title_en content)
      else if truthy (title_original content) then the (title_original content)
      else [])"

text \<open>
  What is done with the documents that the title query returned: those the user has
  are filtered out, the others are scored against the consumed item, sorted by
  descending score (the sort is stable) and pushed.
\<close>

definition add_series_content ::
  "recommendation list \<Rightarrow> content \<Rightarrow> string \<Rightarrow> string set \<Rightarrow> content list \<Rightarrow> recommendation list"
where
  "add_series_content recommendations content contentType userContentSet potentialSeriesContent =
     (let filteredSeriesContent =
            filter (\<lambda>item. truthy (c_id item) \<and> the (c_id item) \<notin> userContentSet)
              potentialSeriesContent;
          scoredContent =
            sort_key (\<lambda>r. - rec_score r)
              (map (\<lambda>item.
                      \<lparr>rec_id = the (c_id item),
                       rec_score = calculateMetadataSimilarity content item contentType,
                       rec_type = contentType,
                       rec_data = item\<rparr>)
                 filteredSeriesContent)
      in if length filteredSeriesContent > 0 then push_scored recommendations scoredContent
         else recommendations)"

definition process_content ::
  "world \<Rightarrow> string \<Rightarrow> string \<Rightarrow> string set \<Rightarrow> recommendation list \<Rightarrow> content option \<Rightarrow> loop_step"
where
  "process_content w collectionName contentType userContentSet recommendations element =
     (case element of
        None \<Rightarrow> Stop recommendations
      | Some content \<Rightarrow>
          let t = content_title content
          in if t = [] then Next recommendations
             else
               let seriesInfo = extractSeriesInfo t in
               if truthy (seriesName seriesInfo) then
                 (case find_by_title w collectionName
                         \<lparr>q_regex = escapeRegex (the (seriesName seriesInfo)),
                          q_exclude = c_id content\<rparr> of
                    Inl error \<Rightarrow> Next recommendations
                  | Inr potentialSeriesContent \<Rightarrow>
                      let recommendations =
                            add_series_content recommendations content contentType userContentSet
                              potentialSeriesContent
                      in if length recommendations \<ge> 10 then Stop recommendations
                         else Next recommendations)
               else if length recommendations \<ge> 10 then Stop recommendations
               else Next recommendations)"

text \<open>The recommendations that a round of the loop leaves.\<close>

fun step_recs :: "loop_step \<Rightarrow> recommendation list" where
  "step_recs (Next recommendations) = recommendations"
| "step_recs (Stop recommendations) = recommendations"

text \<open>
  \<open>adds_few ct ucs recs recs'\<close>: \<open>recs'\<close> extends \<open>recs\<close> by at most three
  recommendations of the type \<open>ct\<close>, none of them in \<open>ucs\<close>, and a list that had three
  members or more grows by one at most.
\<close>

definition adds_few ::
  "string \<Rightarrow> string set \<Rightarrow> recommendation list \<Rightarrow> recommendation list \<Rightarrow> bool" where
  "adds_few ct ucs recs recs' \<longleftrightarrow>
     (\<exists>new. recs' = recs @ new \<and> length new \<le> 3 \<and>
        length recs' \<le> max 3 (Suc (length recs)) \<and>
        (\<forall>r \<in> set new. rec_id r \<notin> ucs \<and> rec_type r = ct))"

fun sequel_loop ::
  "world \<Rightarrow> string \<Rightarrow> string \<Rightarrow> string set \<Rightarrow> recommendation list \<Rightarrow> content option list
     \<Rightarrow> recommendation list"
where
  "sequel_loop w collectionName contentType userContentSet recommendations [] = recommendations"
| "sequel_loop w collectionName contentType userContentSet recommendations (item # contentData) =
     (case process_content w collectionName contentType userContentSet recommendations item of
        Stop recommendations \<Rightarrow> recommendations
      | Next recommendations \<Rightarrow>
          sequel_loop w collectionName contentType userContentSet recommendations contentData)"

definition findSequelsAndSeries ::
  "world \<Rightarrow> content option list \<Rightarrow> string \<Rightarrow> string set \<Rightarrow> recommendation list"
where
  "findSequelsAndSeries w contentData contentType userContentSet =
     (if contentData = [] then []
      else
        case mongo_connect w of
          Some error \<Rightarrow> []
        | None \<Rightarrow>
            (case getCollectionName contentType of
               Inl error \<Rightarrow> []
             | Inr collectionName \<Rightarrow>
                 sequel_loop w collectionName contentType userContentSet [] contentData))"


section \<open>Similar items by id\<close>

text \<open>
  \<open>fetchFromMongoDB\<close>: the document under the id as a string and, when there is none,
  under the id as an object id; every error gives \<open>null\<close>.
\<close>

definition fetchFromMongoDB :: "world \<Rightarrow> string \<Rightarrow> string \<Rightarrow> content option" where
  "fetchFromMongoDB w ident type =
     (case mongo_connect w of
        Some error \<Rightarrow> None
      | None \<Rightarrow>
          (case getCollectionName type of
             Inl error \<Rightarrow> None
           | Inr collectionName \<Rightarrow>
               (case find_one w collectionName (StringId ident) of
                  Inl error \<Rightarrow> None
                | Inr (Some doc) \<Rightarrow> Some doc
                | Inr None \<Rightarrow>
                    (case new_ObjectId w ident of
                       None \<Rightarrow> None
                     | Some oid \<Rightarrow>
                         (case find_one w collectionName (ObjectId oid) of
                            Inl e \<Rightarrow> None
                          | Inr doc \<Rightarrow> doc)))))"

definition getMongoDBDocs :: "world \<Rightarrow> index_match list \<Rightarrow> recommendation list" where
  "getMongoDBDocs w pineconeResults =
     List.map_filter
       (\<lambda>item. case fetchFromMongoDB w (m_id item) (the (m_type item)) of
                  None \<Rightarrow> None
                | Some doc \<Rightarrow>
                    Some \<lparr>rec_id = m_id item, rec_score = m_score item,
                          rec_type = the (m_type item), rec_data = doc\<rparr>)
       (filter (\<lambda>item. truthy (m_type item)) pineconeResults)"

text \<open>\<open>topK\<close> is a count, a natural number. An error of the index gives the empty list.\<close>

definition recommendById :: "world \<Rightarrow> string \<Rightarrow> nat \<Rightarrow> recommendation list" where
  "recommendById w itemId topK =
     (case index_query w itemId (topK + 1) of
        Inl error \<Rightarrow> []
      | Inr res \<Rightarrow>
          let filteredMatches =
                take topK
                  (filter (\<lambda>match. m_id match \<noteq> itemId)
                     (case res of None \<Rightarrow> [] | Some matches \<Rightarrow> matches))
          in getMongoDBDocs w filteredMatches)"

section \<open>Recommendations for one content type\<close>

text \<open>
  \<open>contentData.slice(0, 3).map(item => item._id?.toString() || item.id?.toString())\<close>:
  reading \<open>_id\<close> of an item that is \<open>null\<close> or \<open>undefined\<close> throws.
\<close>

fun sample_ids :: "content option list \<Rightarrow> js_error + string option list" where
  "sample_ids [] = Inr []"
| "sample_ids (None # items) = Inl (TypeError ''Cannot read properties of null (reading _id)'')"
| "sample_ids (Some item # items) =
     (case sample_ids items of
        Inl error \<Rightarrow> Inl error
      | Inr ids \<Rightarrow> Inr ((if truthy (c_id item) then c_id item else c_alt_id item) # ids))"

text \<open>
  The \<open>try\<close> block of \<open>getRecommendationsByType\<close>. Beside its outcome it returns the
  calls of \<open>recommendById\<close> that it made, each with the item id and the count asked for.
\<close>

definition getRecommendationsByType_try ::
  "world \<Rightarrow> content option list \<Rightarrow> string \<Rightarrow> nat \<Rightarrow> string set
     \<Rightarrow> (string \<times> nat) list \<times> (js_error + recommendation list)"
where
  "getRecommendationsByType_try w contentData contentType perTypeCount userContentSet =
     (let sequelRecs = findSequelsAndSeries w contentData contentType userContentSet
      in if length sequelRecs \<ge> perTypeCount then ([], Inr (take perTypeCount sequelRecs))
         else
           let remainingCount = perTypeCount - length sequelRecs in
           case sample_ids (take 3 contentData) of
             Inl error \<Rightarrow> ([], Inl error)
           | Inr sampleIds \<Rightarrow>
               let validSampleIds = map the (filter truthy sampleIds) in
               if length validSampleIds = 0 then ([], Inr sequelRecs)
               else
                 let n = ((remainingCount + length validSampleIds - 1) div length validSampleIds) * 2;
                     allRecommendations = map (\<lambda>ident. recommendById w ident n) validSampleIds;
                     similarityRecs =
                       take remainingCount
                         (filter
                            (\<lambda>rec. rec_type rec \<noteq> [] \<and> rec_id rec \<noteq> [] \<and>
                                   rec_type rec = contentType \<and>
                                   rec_id rec \<notin> userContentSet \<and>
                                   \<not> list_ex (\<lambda>seqRec. rec_id seqRec = rec_id rec) sequelRecs)
                            (concat allRecommendations))
                 in (map (\<lambda>ident. (ident, n)) validSampleIds, Inr (sequelRecs @ similarityRecs)))"

text \<open>
  The function itself. Its \<open>catch\<close> clause evaluates \<open>sequelRecs || []\<close>, but
  \<open>sequelRecs\<close> is a \<open>const\<close> of the \<open>try\<close> block and is not in scope in the
  handler: evaluating it throws a \<open>ReferenceError\<close>, which leaves the function.
\<close>

definition getRecommendationsByType ::
  "world \<Rightarrow> content option list \<Rightarrow> string \<Rightarrow> nat \<Rightarrow> string set
     \<Rightarrow> (string \<times> nat) list \<times> (js_error + recommendation list)"
where
  "getRecommendationsByType w contentData contentType perTypeCount userContentSet =
     (if contentData = [] then ([], Inr [])
      else
        case getRecommendationsByType_try w contentData contentType perTypeCount userContentSet of
          (calls, Inr recs) \<Rightarrow> (calls, Inr recs)
        | (calls, Inl error) \<Rightarrow> (calls, Inl (ReferenceError ''sequelRecs is not defined'')))"

section \<open>Recommendations for a user\<close>

definition getUserContentLists :: "world \<Rightarrow> user_id \<Rightarrow> user_lists option" where
  "getUserContentLists w userId =
     (case mongo_connect w of
        Some error \<Rightarrow> None
      | None \<Rightarrow>
          (case aggregate_user_lists w userId of
             Inl error \<Rightarrow> None
           | Inr result \<Rightarrow> (case result of [] \<Rightarrow> None | r # _ \<Rightarrow> Some r)))"

definition fetchContentDetails :: "world \<Rightarrow> string list \<Rightarrow> string \<Rightarrow> content list" where
  "fetchContentDetails w ids contentType =
     (if ids = [] then []
      else
        case mongo_connect w of
          Some error \<Rightarrow> []
        | None \<Rightarrow>
            (case getCollectionName contentType of
               Inl error \<Rightarrow> []
             | Inr collectionName \<Rightarrow>
                 let objectIdQueries =
                       List.map_filter
                         (\<lambda>i. if i = [] then None else map_option ObjectId (new_ObjectId w i)) ids;
                     stringIdQueries =
                       List.map_filter
                         (\<lambda>i. if i = [] then None
                              else case new_ObjectId w i of
                                     None \<Rightarrow> Some (StringId i)
                                   | Some oid \<Rightarrow> None) ids
                 in if length objectIdQueries = 0 \<and> length stringIdQueries = 0 then []
                    else
                      case find_by_ids w collectionName (objectIdQueries @ stringIdQueries) of
                        Inl error \<Rightarrow> []
                      | Inr results \<Rightarrow> results))"

record user_content =
  movies :: "string list"
  tvSeries :: "string list"
  animes :: "string list"
  games :: "string list"
  movieDetails :: "content list"
  tvSeriesDetails :: "content list"
  animeDetails :: "content list"
  gameDetails :: "content list"

definition list_ids ::
  "(user_list_entry \<Rightarrow> string option) \<Rightarrow> user_list_entry list option \<Rightarrow> string list" where
  "list_ids field entries =
     (case entries of
        None \<Rightarrow> []
      | Some l \<Rightarrow> map (\<lambda>item. the (field item)) (filter (\<lambda>item. truthy (field item)) l))"

definition extractUserContent :: "world \<Rightarrow> user_lists option \<Rightarrow> user_content" where
  "extractUserContent w userLists =
     (case userLists of
        None \<Rightarrow>
          \<lparr>movies = [], tvSeries = [], animes = [], games = [],
           movieDetails = [], tvSeriesDetails = [], animeDetails = [], gameDetails = []\<rparr>
      | Some ul \<Rightarrow>
          let movie_ids = list_ids movie_id (movie_watch_lists ul);
              tv_ids =
                list_ids (\<lambda>item. if truthy (tvseries_id item) then tvseries_id item else tv_id item)
                  (tvseries_watch_lists ul);
              anime_ids = list_ids anime_id (anime_lists ul);
              game_ids = list_ids game_id (game_lists ul)
          in \<lparr>movies = movie_ids, tvSeries = tv_ids, animes = anime_ids, games = game_ids,
              movieDetails = fetchContentDetails w movie_ids ''movie'',
              tvSeriesDetails = fetchContentDetails w tv_ids ''tvseries'',
              animeDetails = fetchContentDetails w anime_ids ''anime'',
              gameDetails = fetchContentDetails w game_ids ''game''\<rparr>)"

text \<open>
  One entry of \<open>recommendationPromises\<close>: the aggregation of a type that has consumed
  items, with its own \<open>.catch\<close> that turns a rejection into the empty list.
\<close>

definition recommendations_of_type ::
  "world \<Rightarrow> content option list \<Rightarrow> string \<Rightarrow> nat \<Rightarrow> string set \<Rightarrow> recommendation list" where
  "recommendations_of_type w details contentType perTypeCount userContentSet =
     (if length details > 0 then
        (case snd (getRecommendationsByType w details contentType perTypeCount userContentSet) of
           Inl err \<Rightarrow> []
         | Inr recs \<Rightarrow> recs)
      else [])"

record recommendations =
  r_movies :: "recommendation list"
  r_tvSeries :: "recommendation list"
  r_animes :: "recommendation list"
  r_games :: "recommendation list"
  r_all :: "recommendation list"

text \<open>The value returned: the empty array, or the object with the four buckets.\<close>

datatype recommendation_result = EmptyArray | Buckets recommendations

text \<open>
  The \<open>try\<close> block of \<open>recommendForUser\<close>. The argument \<open>userIds\<close> is an array
  (\<open>Some\<close>) or \<open>null\<close> (\<open>None\<close>), whose \<open>length\<close> cannot be read. The first
  statement after the choice of \<open>userId\<close> logs it in a template literal, which turns
  it into a string: a \<open>toString\<close> that throws leaves the block with the value thrown.
  What the block throws is an error object (\<open>Some\<close>), or \<open>null\<close> or
  \<open>undefined\<close> (\<open>None\<close>). The services throw error objects, and the documents
  that the store returns are objects, none of them \<open>null\<close>.
\<close>

definition recommendForUser_try ::
  "world \<Rightarrow> user_id list option \<Rightarrow> nat \<Rightarrow> js_error option + recommendation_result" where
  "recommendForUser_try w userIds topK =
     (case userIds of
        None \<Rightarrow> Inl (Some (TypeError ''Cannot read properties of null (reading length)''))
      | Some [] \<Rightarrow> Inr EmptyArray
      | Some (userId # _) \<Rightarrow>
          (case to_string userId of
             Inl thrown \<Rightarrow> Inl thrown
           | Inr shown \<Rightarrow>
               (case getUserContentLists w userId of
                  None \<Rightarrow> Inr EmptyArray
                | Some userLists \<Rightarrow>
                    let userData = extractUserContent w (Some userLists);
                        totalContent =
                          length (movieDetails userData) + length (tvSeriesDetails userData) +
                          length (animeDetails userData) + length (gameDetails userData)
                    in if totalContent = 0 then Inr EmptyArray
                       else
                         let perTypeCount = topK;
                             movieRecs =
                               recommendations_of_type w (map Some (movieDetails userData))
                                 ''movie'' perTypeCount
                                 (set (filter (\<lambda>i. i \<noteq> []) (movies userData)));
                             tvRecs =
                               recommendations_of_type w (map Some (tvSeriesDetails userData))
                                 ''tvseries'' perTypeCount
                                 (set (filter (\<lambda>i. i \<noteq> []) (tvSeries userData)));
                             animeRecs =
                               recommendations_of_type w (map Some (animeDetails userData))
                                 ''anime'' perTypeCount
                                 (set (filter (\<lambda>i. i \<noteq> []) (animes userData)));
                             gameRecs =
                               recommendations_of_type w (map Some (gameDetails userData))
                                 ''game'' perTypeCount
                                 (set (filter (\<lambda>i. i \<noteq> []) (games userData)));
                             totalRecommendations =
                               length movieRecs + length tvRecs + length animeRecs +
                               length gameRecs
                         in if totalRecommendations = 0 then Inr EmptyArray
                            else
                              Inr (Buckets
                                \<lparr>r_movies = movieRecs, r_tvSeries = tvRecs,
                                 r_animes = animeRecs, r_games = gameRecs,
                                 r_all = movieRecs @ tvRecs @ animeRecs @ gameRecs\<rparr>))))"

text \<open>
  The function. Its handler logs \<open>error.message\<close> and returns the empty array. Reading
  \<open>message\<close> of a caught value that is \<open>null\<close> or \<open>undefined\<close> throws a
  \<open>TypeError\<close>, which leaves the function: then the caller gets the error (\<open>Inl\<close>).
\<close>

definition recommendForUser ::
  "world \<Rightarrow> user_id list option \<Rightarrow> nat \<Rightarrow> js_error + recommendation_result" where
  "recommendForUser w userIds topK =
     (case recommendForUser_try w userIds topK of
        Inr result \<Rightarrow> Inr result
      | Inl None \<Rightarrow> Inl (TypeError ''Cannot read properties of null (reading message)'')
      | Inl (Some error) \<Rightarrow> Inr EmptyArray)"

section \<open>A store that holds given documents\<close>

text \<open>
  For concrete runs: a document store whose \<open>_id\<close>s are plain strings, holding the
  documents \<open>colls name\<close> in the collection \<open>name\<close> and the aggregation rows
  \<open>users u\<close> for the user whose id is the string \<open>u\<close> (no user has an object as
  its id), and a vector index that answers a query for
  \<open>i\<close> with the first \<open>topK\<close> of \<open>index i\<close>. No operation fails. The regular
  expression of a title query is an escaped literal, so it matches the titles that
  contain the literal, letter case apart.
\<close>

fun unescape :: "string \<Rightarrow> string" where
  "unescape [] = []"
| "unescape [c] = [c]"
| "unescape (c # d # s) = (if c = CHR 0x5C then d # unescape s else c # unescape (d # s))"

fun includes_ci :: "string \<Rightarrow> string \<Rightarrow> bool" where
  "includes_ci sub [] = (sub = [])"
| "includes_ci sub (c # s) =
     ((length sub \<le> length (c # s) \<and>
       map canonicalize (take (length sub) (c # s)) = map canonicalize sub)
      \<or> includes_ci sub s)"

definition title_matches :: "string \<Rightarrow> content \<Rightarrow> bool" where
  "title_matches pattern d =
     list_ex (\<lambda>field. case field d of None \<Rightarrow> False | Some s \<Rightarrow> includes_ci (unescape pattern) s)
       [title, title_en, title_original]"

fun key_string :: "id_key \<Rightarrow> string" where
  "key_string (StringId s) = s"
| "key_string (ObjectId s) = s"

definition store_world ::
  "(string \<Rightarrow> content list) \<Rightarrow> (string \<Rightarrow> user_lists list) \<Rightarrow> (string \<Rightarrow> index_match list) \<Rightarrow> world"
where
  "store_world colls users index =
     \<lparr>mongo_connect = None,
      aggregate_user_lists =
        (\<lambda>u. case u of Id s \<Rightarrow> Inr (users s) | Id_object r \<Rightarrow> Inr []),
      find_by_ids =
        (\<lambda>name keys. Inr (filter (\<lambda>d. c_id d \<in> set (map (\<lambda>k. Some (key_string k)) keys))
                              (colls name))),
      find_by_title =
        (\<lambda>name q. Inr (take 5 (filter (\<lambda>d. title_matches (q_regex q) d \<and> c_id d \<noteq> q_exclude q)
                                   (colls name)))),
      find_one = (\<lambda>name k. Inr (List.find (\<lambda>d. c_id d = Some (key_string k)) (colls name))),
      new_ObjectId = (\<lambda>s. None),
      index_query = (\<lambda>i topK. Inr (Some (take topK (index i))))\<rparr>"

text \<open>A movie with an id, a title and genres, and nothing else.\<close>

definition movie :: "string \<Rightarrow> string \<Rightarrow> string list \<Rightarrow> content" where
  "movie ident t gs =
     \<lparr>c_id = Some ident, c_alt_id = None, title = None, title_en = Some t,
      title_original = None, genres = map Str gs, demographics = [], themes = [],
      studios = [], production_companies = [], actors = [], networks = [], platforms = [],
      developers = [], publishers = []\<rparr>"

definition watched :: "string \<Rightarrow> user_list_entry" where
  "watched ident =
     \<lparr>movie_id = Some ident, tvseries_id = None, tv_id = None, anime_id = None, game_id = None\<rparr>"

text \<open>
  The store of the running example: the movies Rocky 2, 3 and 4, and a user who has
  watched the first two. The vector index is empty.
\<close>

definition rocky_movies :: "content list" where
  "rocky_movies =
     [movie ''m2'' ''Rocky 2'' [''Drama''],
      movie ''m3'' ''Rocky 3'' [''Drama'', ''Sport''],
      movie ''m4'' ''Rocky 4'' [''Drama'']]"

definition rocky_world :: world where
  "rocky_world =
     store_world
       (\<lambda>name. if name = ''movies'' then rocky_movies else [])
       (\<lambda>u. if u = ''u1''
             then [\<lparr>anime_lists = Some [], game_lists = Some [],
                    movie_watch_lists = Some [watched ''m2'', watched ''m3''],
                    tvseries_watch_lists = Some []\<rparr>]
             else [])
       (\<lambda>i. [])"


text \<open>An anime with one genre, demographic, theme and studio, each a named sub-document.\<close>

definition anime :: "string \<Rightarrow> string \<Rightarrow> string \<Rightarrow> content" where
  "anime ident t n =
     \<lparr>c_id = Some ident, c_alt_id = None, title = None, title_en = Some t,
      title_original = None, genres = [Obj 0 (Some n)], demographics = [Obj 1 (Some n)],
      themes = [Obj 2 (Some n)], studios = [Obj 3 (Some n)], production_companies = [],
      actors = [], networks = [], platforms = [], developers = [], publishers = []\<rparr>"

text \<open>
  A second store: twelve movies of one series, of which the user has consumed nine.
  The three others come first in the collection.
\<close>

definition saw_consumed :: "content list" where
  "saw_consumed =
     [movie ''s1'' ''Saw 1'' [], movie ''s2'' ''Saw 2'' [], movie ''s3'' ''Saw 3'' [],
      movie ''s4'' ''Saw 4'' [], movie ''s5'' ''Saw 5'' [], movie ''s6'' ''Saw 6'' [],
      movie ''s7'' ''Saw 7'' [], movie ''s8'' ''Saw 8'' [], movie ''s9'' ''Saw 9'' []]"

definition saw_world :: world where
  "saw_world =
     store_world
       (\<lambda>name. if name = ''movies''
                then [movie ''x1'' ''Saw 10'' [], movie ''x2'' ''Saw 11'' [],
                      movie ''x3'' ''Saw 12'' []] @ saw_consumed
                else [])
       (\<lambda>u. [])
       (\<lambda>i. [])"

text \<open>
  A third store, for a query by id: the vector index answers a query for \<open>X\<close> with
  \<open>X\<close> itself and five neighbours, all of them movies that the store holds.
\<close>

definition hit :: "string \<Rightarrow> real \<Rightarrow> index_match" where
  "hit ident s = \<lparr>m_id = ident, m_score = s, m_type = Some ''movie''\<rparr>"

definition neighbours_world :: world where
  "neighbours_world =
     store_world
       (\<lambda>name. if name = ''movies''
                then [movie ''X'' ''Heat'' [], movie ''n1'' ''Ronin'' [], movie ''n2'' ''Thief'' [],
                      movie ''n3'' ''Collateral'' [], movie ''n4'' ''Manhunter'' [],
                      movie ''n5'' ''The Insider'' []]
                else [])
       (\<lambda>u. [])
       (\<lambda>i. if i = ''X''
             then [hit ''X'' 1, hit ''n1'' (9 / 10), hit ''n2'' (8 / 10), hit ''n3'' (7 / 10),
                   hit ''n4'' (6 / 10), hit ''n5'' (5 / 10)]
             else [])"

text \<open>The recommendation of Rocky 4 with a given score.\<close>

definition rocky4 :: "real \<Rightarrow> recommendation" where
  "rocky4 s =
     \<lparr>rec_id = ''m4'', rec_score = s, rec_type = ''movie'',
      rec_data = movie ''m4'' ''Rocky 4'' [''Drama'']\<rparr>"

section \<open>Ingestion: retries\<close>

text \<open>\<open>error?.error?.type === 'requests' && error.status === 429\<close>\<close>

definition is_rate_limit :: "js_error \<Rightarrow> bool" where
  "is_rate_limit error \<longleftrightarrow> e_type error = Some ''requests'' \<and> e_status error = Some 429"

text \<open>\<open>s.includes(sub)\<close>\<close>

fun str_includes :: "string \<Rightarrow> string \<Rightarrow> bool" where
  "str_includes sub [] = (sub = [])"
| "str_includes sub (c # s) = (take (length sub) (c # s) = sub \<or> str_includes sub s)"

text \<open>
  \<open>error.message && (error.message.includes('timeout') ||
  error.message.includes('timed out'))\<close>
\<close>

definition is_timeout :: "js_error \<Rightarrow> bool" where
  "is_timeout error \<longleftrightarrow>
     (case e_message error of
        None \<Rightarrow> False
      | Some m \<Rightarrow> m \<noteq> [] \<and> (str_includes ''timeout'' m \<or> str_includes ''timed out'' m))"

fun decimal :: "nat \<Rightarrow> string" where
  "decimal n =
     (if n < 10 then [''0123456789'' ! n]
      else decimal (n div 10) @ [''0123456789'' ! (n mod 10)])"

text \<open>
  A run of \<open>withRetry\<close>: the durations, in milliseconds, of the sleeps it made, the
  number of calls of \<open>fn\<close>, and the value returned or the error thrown.
\<close>

record 'a retry_run =
  waits :: "real list"
  calls :: nat
  outcome :: "js_error + 'a"

text \<open>
  The loop of \<open>withRetry\<close> from a given attempt on. \<open>fn\<close> is an external call; what
  it does at its \<open>n\<close>-th call is \<open>fn n\<close>.
\<close>

function withRetry_from ::
  "(nat \<Rightarrow> js_error + 'a) \<Rightarrow> nat \<Rightarrow> real \<Rightarrow> nat \<Rightarrow> 'a retry_run" where
  "withRetry_from fn maxRetries initialWaitTime attempt =
     (if attempt \<le> maxRetries then
        (case fn attempt of
           Inr v \<Rightarrow> \<lparr>waits = [], calls = 1, outcome = Inr v\<rparr>
         | Inl error \<Rightarrow>
             let waitTime = initialWaitTime * (15 / 10) ^ (attempt - 1);
                 rest = withRetry_from fn maxRetries initialWaitTime (attempt + 1);
                 retried = rest\<lparr>waits := waitTime # waits rest, calls := 1 + calls rest\<rparr>
             in if is_rate_limit error then retried
                else if is_timeout error then retried
                else if attempt < maxRetries then retried
                else \<lparr>waits = [], calls = 1, outcome = Inl error\<rparr>)
      else
        \<lparr>waits = [], calls = 0,
         outcome = Inl (Error (''Failed after '' @ decimal maxRetries @ '' retries''))\<rparr>)"
  by pat_completeness auto
termination
  by (relation "measure (\<lambda>(fn, maxRetries, initialWaitTime, attempt). Suc maxRetries - attempt)")
    auto

declare withRetry_from.simps [simp del]

definition withRetry :: "(nat \<Rightarrow> js_error + 'a) \<Rightarrow> nat \<Rightarrow> real \<Rightarrow> 'a retry_run" where
  "withRetry fn maxRetries initialWaitTime = withRetry_from fn maxRetries initialWaitTime 1"

section \<open>Ingestion: one collection\<close>

text \<open>
  The services as the ingestion sees them. The collection holds \<open>documents\<close> and does
  not change during a run. Every round of the loop has its own batch number, and what
  an external call does depends on the batch number and on the attempt:
  \<^item> \<open>count_error\<close>: the error of \<open>countDocuments\<close>, if it throws;
  \<^item> \<open>find_error b a\<close>: the error of reading the batch, if the read throws;
  \<^item> \<open>embed_error b a\<close>, \<open>upsert_error b a\<close>: the same for the embedding call and for
    the upsert;
  \<^item> \<open>build_text\<close>: the text that \<open>buildText\<close> makes of a document, or the error it
    throws on a document that lacks what the template of its type reads. The templates
    themselves are not modelled.
\<close>

record ingest_world =
  documents :: "content list"
  count_error :: "js_error option"
  find_error :: "nat \<Rightarrow> nat \<Rightarrow> js_error option"
  embed_error :: "nat \<Rightarrow> nat \<Rightarrow> js_error option"
  upsert_error :: "nat \<Rightarrow> nat \<Rightarrow> js_error option"
  build_text :: "content \<Rightarrow> js_error + string"

text \<open>
  The state of a run: the three counters of the source and the ids that have been
  upserted into the vector index.
\<close>

record ingest_state =
  processed :: nat
  failedAttempts :: nat
  batchNum :: nat
  upserted :: "string list"

definition attempt_of :: "(nat \<Rightarrow> js_error option) \<Rightarrow> 'a \<Rightarrow> nat \<Rightarrow> js_error + 'a" where
  "attempt_of errors v a = (case errors a of Some error \<Rightarrow> Inl error | None \<Rightarrow> Inr v)"

text \<open>
  \<open>batch.map(doc => ({id: doc._id.toString(), text: buildText(doc, collName)}))\<close>:
  the ids and texts, or the first error thrown.
\<close>

fun build_documents :: "ingest_world \<Rightarrow> content list \<Rightarrow> js_error + (string \<times> string) list" where
  "build_documents w [] = Inr []"
| "build_documents w (doc # batch) =
     (case c_id doc of
        None \<Rightarrow> Inl (TypeError ''Cannot read properties of undefined (reading toString)'')
      | Some ident \<Rightarrow>
          (case build_text w doc of
             Inl error \<Rightarrow> Inl error
           | Inr text \<Rightarrow>
               (case build_documents w batch of
                  Inl error \<Rightarrow> Inl error
                | Inr docs \<Rightarrow> Inr ((ident, text) # docs))))"

text \<open>
  \<open>processBatch\<close>: the embedding call and then the upsert, each under \<open>withRetry\<close>
  with its defaults; it returns the ids upserted.
\<close>

definition processBatch ::
  "ingest_world \<Rightarrow> nat \<Rightarrow> (string \<times> string) list \<Rightarrow> js_error + string list" where
  "processBatch w b docs =
     (case outcome (withRetry (attempt_of (embed_error w b) ()) 5 4400) of
        Inl error \<Rightarrow> Inl error
      | Inr embeddingRes \<Rightarrow>
          (case outcome (withRetry (attempt_of (upsert_error w b) ()) 5 4400) of
             Inl error \<Rightarrow> Inl error
           | Inr done \<Rightarrow> Inr (map fst docs)))"

text \<open>
  Reading the next batch: \<open>find({}).skip(processed).limit(BATCH_SIZE).toArray()\<close>
  under \<open>withRetry\<close> with three attempts.
\<close>

definition read_batch :: "ingest_world \<Rightarrow> nat \<Rightarrow> nat \<Rightarrow> js_error + content list" where
  "read_batch w b skip =
     outcome
       (withRetry (attempt_of (find_error w b) (take 50 (drop skip (documents w)))) 3 4400)"

text \<open>
  One round of the \<open>while\<close> loop: \<open>Inl\<close> when the loop is left (the batch read is
  empty), \<open>Inr\<close> when another round follows.
\<close>

definition ingest_round :: "ingest_world \<Rightarrow> ingest_state \<Rightarrow> ingest_state + ingest_state" where
  "ingest_round w st0 =
     (let st = st0\<lparr>batchNum := batchNum st0 + 1\<rparr> in
      case read_batch w (batchNum st) (processed st) of
        Inl err \<Rightarrow> Inr st
      | Inr batch \<Rightarrow>
          if length batch = 0 then Inl st
          else
            (case build_documents w batch of
               Inl batchErr \<Rightarrow> Inr st
             | Inr docs \<Rightarrow>
                 (case processBatch w (batchNum st) docs of
                    Inr ids \<Rightarrow>
                      Inr (st\<lparr>processed := processed st + length batch,
                              failedAttempts := 0,
                              upserted := upserted st @ ids\<rparr>)
                  | Inl err \<Rightarrow>
                      let st = st\<lparr>failedAttempts := failedAttempts st + 1\<rparr> in
                      if failedAttempts st \<ge> 5
                      then Inr (st\<lparr>processed := processed st + length batch,
                                   failedAttempts := 0\<rparr>)
                      else Inr st)))"

text \<open>The loop may run for ever: \<open>None\<close> when it does.\<close>

partial_function (option) ingest_loop :: "ingest_world \<Rightarrow> ingest_state \<Rightarrow> ingest_state option"
where
  "ingest_loop w st =
     (case ingest_round w st of
        Inl final \<Rightarrow> Some final
      | Inr next \<Rightarrow> ingest_loop w next)"

declare ingest_loop.simps [code]

definition initial_state :: ingest_state where
  "initial_state = \<lparr>processed = 0, failedAttempts = 0, batchNum = 0, upserted = []\<rparr>"

text \<open>
  \<open>ingestCollection\<close>: the state in which it returns, or \<open>None\<close> when it does not
  return. An error of \<open>countDocuments\<close> is caught by the outer handler.
\<close>

definition ingestCollection :: "ingest_world \<Rightarrow> ingest_state option" where
  "ingestCollection w =
     (case count_error w of
        Some err \<Rightarrow> Some initial_state
      | None \<Rightarrow> ingest_loop w initial_state)"

text \<open>\<open>rounds n w st\<close>: the state after \<open>n\<close> more rounds, unless the loop is left.\<close>

fun rounds :: "nat \<Rightarrow> ingest_world \<Rightarrow> ingest_state \<Rightarrow> ingest_state + ingest_state" where
  "rounds 0 w st = Inr st"
| "rounds (Suc n) w st =
     (case ingest_round w st of
        Inl final \<Rightarrow> Inl final
      | Inr next \<Rightarrow> rounds n w next)"

text \<open>
  A bound on the rounds with a successful read that are left: five for each document not
  yet processed, less the failures counted.
\<close>

definition fuel :: "ingest_world \<Rightarrow> ingest_state \<Rightarrow> nat" where
  "fuel w st = 5 * (length (documents w) - processed st) + (5 - failedAttempts st)"

text \<open>Errors of the three kinds that \<open>withRetry\<close> tells apart.\<close>

definition rate_limit_error :: js_error where
  "rate_limit_error =
     \<lparr>e_name = ''RateLimitError'', e_message = Some ''Rate limit reached'',
      e_status = Some 429, e_type = Some ''requests''\<rparr>"

definition timeout_error :: js_error where
  "timeout_error = Error ''Request timed out.''"

definition other_error :: js_error where
  "other_error = Error ''Bad gateway''"

text \<open>A call that fails three times, once in each way, and then succeeds.\<close>

definition three_failures :: "nat \<Rightarrow> js_error + unit" where
  "three_failures a =
     (if a = 1 then Inl rate_limit_error
      else if a = 2 then Inl timeout_error
      else if a = 3 then Inl other_error
      else Inr ())"

text \<open>
  Ingestion worlds for the runs below. In all of them the collection holds the three
  Rocky movies and \<open>buildText\<close> returns the title. In \<open>refusing_world\<close> the embedding
  service refuses every call; in \<open>unreachable_world\<close> no batch can be read.
\<close>

definition refusing_world :: ingest_world where
  "refusing_world =
     \<lparr>documents = rocky_movies, count_error = None,
      find_error = (\<lambda>b a. None),
      embed_error = (\<lambda>b a. Some other_error),
      upsert_error = (\<lambda>b a. None),
      build_text = (\<lambda>doc. Inr (content_title doc))\<rparr>"

definition unreachable_world :: ingest_world where
  "unreachable_world =
     \<lparr>documents = rocky_movies, count_error = None,
      find_error = (\<lambda>b a. Some other_error),
      embed_error = (\<lambda>b a. None),
      upsert_error = (\<lambda>b a. None),
      build_text = (\<lambda>doc. Inr (content_title doc))\<rparr>"
section \<open>Properties of the similarity scorer\<close>

lemma compareArrays_nonneg: "0 \<le> compareArrays xs ys"
  by (simp add: compareArrays_def Let_def)

lemma compareArrays_empty: "xs = [] \<or> ys = [] \<Longrightarrow> compareArrays xs ys = 0"
  by (auto simp: compareArrays_def)

lemma getFieldArrayValues_Nil: "getFieldArrayValues [] = []"
  by (simp add: getFieldArrayValues_def List.map_filter_simps)

lemma calculateMetadataSimilarity_lower: "5 / 10 \<le> calculateMetadataSimilarity c1 c2 t"
proof -
  note nn =
    compareArrays_nonneg [of "genres c1" "genres c2"]
    compareArrays_nonneg [of "platforms c1" "platforms c2"]
    compareArrays_nonneg [of "developers c1" "developers c2"]
    compareArrays_nonneg [of "publishers c1" "publishers c2"]
    compareArrays_nonneg [of "getFieldArrayValues (genres c1)" "getFieldArrayValues (genres c2)"]
    compareArrays_nonneg [of "getFieldArrayValues (demographics c1)"
      "getFieldArrayValues (demographics c2)"]
    compareArrays_nonneg [of "getFieldArrayValues (themes c1)" "getFieldArrayValues (themes c2)"]
    compareArrays_nonneg [of "getFieldArrayValues (studios c1)" "getFieldArrayValues (studios c2)"]
    compareArrays_nonneg [of "getFieldArrayValues (networks c1)"
      "getFieldArrayValues (networks c2)"]
    compareArrays_nonneg [of "getFieldArrayValues (production_companies c1)"
      "getFieldArrayValues (production_companies c2)"]
    compareArrays_nonneg [of "take 3 (getFieldArrayValues (actors c1))"
      "take 3 (getFieldArrayValues (actors c2))"]
    compareArrays_nonneg [of "take 5 (getFieldArrayValues (actors c1))"
      "take 5 (getFieldArrayValues (actors c2))"]
  show ?thesis
    unfolding calculateMetadataSimilarity_def Let_def
    using nn by (simp split: if_split)
qed

lemma calculateMetadataSimilarity_upper: "calculateMetadataSimilarity c1 c2 t \<le> 99 / 100"
  by (simp add: calculateMetadataSimilarity_def Let_def)

lemma one_side_empty_named:
  "xs = [] \<or> ys = [] \<Longrightarrow> compareArrays (getFieldArrayValues xs) (getFieldArrayValues ys) = 0"
  by (auto simp: compareArrays_empty getFieldArrayValues_Nil)

lemma one_side_empty_take:
  "xs = [] \<or> ys = [] \<Longrightarrow>
   compareArrays (take n (getFieldArrayValues xs)) (take n (getFieldArrayValues ys)) = 0"
  by (auto simp: compareArrays_empty getFieldArrayValues_Nil)

lemma calculateMetadataSimilarity_no_overlap:
  assumes "\<forall>(x, y) \<in> set (zip (compared_attributes t c1) (compared_attributes t c2)).
             x = [] \<or> y = []"
  shows "calculateMetadataSimilarity c1 c2 t = 5 / 10"
proof -
  consider "t = ''anime''" | "t = ''movie''" | "t = ''tvseries''" | "t = ''game''"
    | "t \<noteq> ''anime''" "t \<noteq> ''movie''" "t \<noteq> ''tvseries''" "t \<noteq> ''game''"
    by blast
  then show ?thesis
  proof cases
    case 1
    with assms show ?thesis
      by (simp add: calculateMetadataSimilarity_def compared_attributes_def Let_def
            one_side_empty_named)
  next
    case 2
    with assms show ?thesis
      by (simp add: calculateMetadataSimilarity_def compared_attributes_def Let_def
            one_side_empty_named one_side_empty_take compareArrays_empty)
  next
    case 3
    with assms show ?thesis
      by (simp add: calculateMetadataSimilarity_def compared_attributes_def Let_def
            one_side_empty_named one_side_empty_take compareArrays_empty)
  next
    case 4
    with assms show ?thesis
      by (simp add: calculateMetadataSimilarity_def compared_attributes_def Let_def
            compareArrays_empty)
  next
    case 5
    then show ?thesis
      by (simp add: calculateMetadataSimilarity_def Let_def)
  qed
qed

text \<open>
  The cap is reached: an anime compared with itself agrees in all four attributes, the
  sum is 1, and the score returned is 0.99.
\<close>

lemma calculateMetadataSimilarity_cap_reached:
  "calculateMetadataSimilarity (anime ''a1'' ''Monster'' ''Drama'')
     (anime ''a1'' ''Monster'' ''Drama'') ''anime'' = 99 / 100"
  by code_simp

text \<open>
  Claim C2. For all documents \<open>c1\<close>, \<open>c2\<close> and every content type, the score that
  \<open>calculateMetadataSimilarity\<close> returns lies between 0.5 and 0.99 (the cap); it is exactly
  0.5 when of every attribute compared for the type at least one of the two sides is
  empty; and the score is a function of the three arguments alone: equal arguments give
  an equal score.
\<close>

theorem calculateMetadataSimilarity_bounds:
  "5 / 10 \<le> calculateMetadataSimilarity c1 c2 t \<and>
   calculateMetadataSimilarity c1 c2 t \<le> 99 / 100 \<and>
   ((\<forall>(x, y) \<in> set (zip (compared_attributes t c1) (compared_attributes t c2)). x = [] \<or> y = [])
      \<longrightarrow> calculateMetadataSimilarity c1 c2 t = 5 / 10) \<and>
   (\<forall>c1' c2' t'. c1' = c1 \<and> c2' = c2 \<and> t' = t \<longrightarrow>
      calculateMetadataSimilarity c1' c2' t' = calculateMetadataSimilarity c1 c2 t)"
  using calculateMetadataSimilarity_lower [of c1 c2 t]
    calculateMetadataSimilarity_upper [of c1 c2 t]
    calculateMetadataSimilarity_no_overlap [of t c1 c2]
  by blast

theorem calculateMetadataSimilarity_bounds_witness:
  "calculateMetadataSimilarity (movie ''a'' ''Alien'' []) (movie ''b'' ''Brazil'' [''Drama''])
     ''movie'' = 5 / 10"
proof -
  have h: "\<forall>(x, y) \<in> set (zip (compared_attributes ''movie'' (movie ''a'' ''Alien'' []))
                       (compared_attributes ''movie'' (movie ''b'' ''Brazil'' [''Drama'']))).
      x = [] \<or> y = []"
    by (simp add: compared_attributes_def movie_def)
  with calculateMetadataSimilarity_bounds
    [of "movie ''a'' ''Alien'' []" "movie ''b'' ''Brazil'' [''Drama'']" "''movie''"]
  show ?thesis by blast
qed

section \<open>Properties of sequel detection\<close>

lemma push_scored_new:
  "\<exists>new. push_scored recs scored = recs @ new \<and> set new \<subseteq> set scored \<and>
         length new \<le> 3 \<and> length (recs @ new) \<le> max 3 (Suc (length recs))"
proof (induction scored arbitrary: recs)
  case Nil
  show ?case by simp
next
  case (Cons r scored)
  show ?case
  proof (cases "length (recs @ [r]) \<ge> 3")
    case True
    then have "push_scored recs (r # scored) = recs @ [r]" by (simp add: Let_def)
    then show ?thesis by auto
  next
    case False
    from Cons.IH [of "recs @ [r]"] obtain new where
      new: "push_scored (recs @ [r]) scored = (recs @ [r]) @ new" "set new \<subseteq> set scored"
        "length ((recs @ [r]) @ new) \<le> max 3 (Suc (length (recs @ [r])))"
      by blast
    from False have eq: "push_scored recs (r # scored) = recs @ (r # new)"
      using new(1) by (simp add: Let_def)
    from False new(3) have "length (r # new) \<le> 3" by simp
    moreover from False new(3) have "length (recs @ (r # new)) \<le> max 3 (Suc (length recs))"
      by simp
    moreover from new(2) have "set (r # new) \<subseteq> set (r # scored)" by auto
    ultimately show ?thesis using eq by blast
  qed
qed

lemma adds_few_refl: "adds_few ct ucs recs recs"
  unfolding adds_few_def by (rule exI [of _ "[]"]) simp

lemma add_series_content_new: "adds_few ct ucs recs (add_series_content recs c ct ucs docs)"
proof -
  let ?scored = "sort_key (\<lambda>r. - rec_score r)
        (map (\<lambda>item. \<lparr>rec_id = the (c_id item),
                      rec_score = calculateMetadataSimilarity c item ct,
                      rec_type = ct, rec_data = item\<rparr>)
           (filter (\<lambda>item. truthy (c_id item) \<and> the (c_id item) \<notin> ucs) docs))"
  have scored: "\<forall>r \<in> set ?scored. rec_id r \<notin> ucs \<and> rec_type r = ct"
    by auto
  from push_scored_new [of recs ?scored] obtain new where
    "push_scored recs ?scored = recs @ new" "set new \<subseteq> set ?scored" "length new \<le> 3"
    "length (recs @ new) \<le> max 3 (Suc (length recs))"
    by blast
  with scored have "adds_few ct ucs recs (push_scored recs ?scored)"
    unfolding adds_few_def by (intro exI [of _ new]) auto
  then show ?thesis
    unfolding add_series_content_def Let_def by (simp add: adds_few_refl)
qed

lemma process_content_new:
  "adds_few ct ucs recs (step_recs (process_content w coll ct ucs recs el))"
  unfolding process_content_def Let_def
  by (simp add: adds_few_refl add_series_content_new split: option.split sum.split)

lemma process_content_Next:
  assumes "process_content w coll ct ucs recs el = Next recs'" "length recs < 10"
  shows "length recs' < 10"
  using assms unfolding process_content_def Let_def
  by (auto split: option.splits sum.splits if_splits)

lemma sequel_loop_bound:
  "length recs < 10 \<Longrightarrow> length (sequel_loop w coll ct ucs recs cd) \<le> 10"
proof (induction cd arbitrary: recs)
  case Nil
  then show ?case by simp
next
  case (Cons el cd)
  show ?case
  proof (cases "process_content w coll ct ucs recs el")
    case (Next recs')
    with Cons.prems have "length recs' < 10" by (auto dest: process_content_Next)
    with Cons.IH Next show ?thesis by simp
  next
    case (Stop recs')
    with process_content_new [of ct ucs recs w coll el]
    have "length recs' \<le> max 3 (Suc (length recs))" by (auto simp: adds_few_def)
    with Cons.prems Stop show ?thesis by simp
  qed
qed

lemma sequel_loop_stop:
  "length recs < 10 \<Longrightarrow> length (sequel_loop w coll ct ucs recs xs) \<ge> 10 \<Longrightarrow>
   sequel_loop w coll ct ucs recs (xs @ ys) = sequel_loop w coll ct ucs recs xs"
proof (induction xs arbitrary: recs)
  case Nil
  then show ?case by simp
next
  case (Cons el xs)
  show ?case
  proof (cases "process_content w coll ct ucs recs el")
    case (Next recs')
    with Cons.prems have "length recs' < 10" by (auto dest: process_content_Next)
    with Cons.IH [of recs'] Cons.prems(2) Next show ?thesis by simp
  next
    case (Stop recs')
    then show ?thesis by simp
  qed
qed

lemma sequel_loop_invariant:
  assumes "\<forall>r \<in> set recs. rec_id r \<notin> ucs \<and> rec_type r = ct"
  shows "\<forall>r \<in> set (sequel_loop w coll ct ucs recs cd). rec_id r \<notin> ucs \<and> rec_type r = ct"
  using assms
proof (induction cd arbitrary: recs)
  case Nil
  then show ?case by simp
next
  case (Cons el cd)
  from process_content_new [of ct ucs recs w coll el] Cons.prems
  have inv: "\<forall>r \<in> set (step_recs (process_content w coll ct ucs recs el)).
      rec_id r \<notin> ucs \<and> rec_type r = ct"
    by (auto simp: adds_few_def)
  show ?case
  proof (cases "process_content w coll ct ucs recs el")
    case (Next recs')
    with inv Cons.IH [of recs'] show ?thesis by simp
  next
    case (Stop recs')
    with inv show ?thesis by simp
  qed
qed

lemma findSequelsAndSeries_bound: "length (findSequelsAndSeries w cd ct ucs) \<le> 10"
  unfolding findSequelsAndSeries_def
  by (simp add: sequel_loop_bound split: option.split sum.split)

lemma findSequelsAndSeries_stop:
  "length (findSequelsAndSeries w xs ct ucs) \<ge> 10 \<Longrightarrow>
   findSequelsAndSeries w (xs @ ys) ct ucs = findSequelsAndSeries w xs ct ucs"
  unfolding findSequelsAndSeries_def
  by (auto simp: sequel_loop_stop split: option.splits sum.splits if_splits)

lemma findSequelsAndSeries_unconsumed:
  "\<forall>r \<in> set (findSequelsAndSeries w cd ct ucs). rec_id r \<notin> ucs \<and> rec_type r = ct"
proof -
  have "\<forall>r \<in> set (sequel_loop w coll ct ucs [] cd). rec_id r \<notin> ucs \<and> rec_type r = ct" for coll
    by (rule sequel_loop_invariant) simp
  then show ?thesis
    unfolding findSequelsAndSeries_def
    by (auto split: option.splits sum.splits)
qed

text \<open>
  Claim C4. One round of the loop of \<open>findSequelsAndSeries\<close>, whatever the
  recommendations gathered before it and whatever the consumed item, appends at most 3
  recommendations; the sequel detector returns at most 10 recommendations for a user and
  a type; and once 10 are reached no further consumed item is processed: the items
  that follow in the list leave the result as it is.
\<close>

theorem findSequelsAndSeries_caps:
  "(\<exists>new. step_recs (process_content w coll ct ucs recs el) = recs @ new \<and> length new \<le> 3) \<and>
   length (findSequelsAndSeries w contentData ct ucs) \<le> 10 \<and>
   (length (findSequelsAndSeries w contentData ct ucs) \<ge> 10 \<longrightarrow>
      findSequelsAndSeries w (contentData @ further) ct ucs
        = findSequelsAndSeries w contentData ct ucs)"
  using process_content_new [of ct ucs recs w coll el]
    findSequelsAndSeries_bound [of w contentData ct ucs]
    findSequelsAndSeries_stop [of w contentData ct ucs further]
  unfolding adds_few_def by blast

theorem findSequelsAndSeries_caps_witness:
  "length (findSequelsAndSeries saw_world (map Some (take 8 saw_consumed)) ''movie''
             (set (map (\<lambda>d. the (c_id d)) saw_consumed))) \<ge> 10 \<and>
   findSequelsAndSeries saw_world (map Some (take 8 saw_consumed) @ [Some (saw_consumed ! 8)])
       ''movie'' (set (map (\<lambda>d. the (c_id d)) saw_consumed))
     = findSequelsAndSeries saw_world (map Some (take 8 saw_consumed)) ''movie''
         (set (map (\<lambda>d. the (c_id d)) saw_consumed))"
proof -
  have h: "length (findSequelsAndSeries saw_world (map Some (take 8 saw_consumed)) ''movie''
             (set (map (\<lambda>d. the (c_id d)) saw_consumed))) \<ge> 10"
    by code_simp
  with findSequelsAndSeries_caps
    [of saw_world "''movies''" "''movie''" "set (map (\<lambda>d. the (c_id d)) saw_consumed)" "[]" None
      "map Some (take 8 saw_consumed)" "[Some (saw_consumed ! 8)]"]
  show ?thesis by blast
qed

section \<open>Properties of the series identity\<close>





section \<open>Properties of the query by id\<close>

lemma getMongoDBDocs_sub:
  "length (getMongoDBDocs w ms) \<le> length ms \<and>
   rec_id ` set (getMongoDBDocs w ms) \<subseteq> m_id ` set ms"
proof (induction ms)
  case Nil
  show ?case by (simp add: getMongoDBDocs_def List.map_filter_simps)
next
  case (Cons m ms)
  then show ?case
    by (auto simp: getMongoDBDocs_def List.map_filter_simps split: option.splits)
qed

text \<open>
  Claim C6. For every item id and every \<open>topK\<close>, \<open>recommendById\<close> returns at most
  \<open>topK\<close> recommendations, and none of them has the id that was queried, also when the
  vector index returns the queried item among its matches.
\<close>

theorem recommendById_excludes_self:
  "length (recommendById w itemId topK) \<le> topK \<and>
   (\<forall>r \<in> set (recommendById w itemId topK). rec_id r \<noteq> itemId)"
proof (cases "index_query w itemId (topK + 1)")
  case (Inl error)
  then show ?thesis by (simp add: recommendById_def)
next
  case (Inr res)
  define filteredMatches where
    "filteredMatches = take topK (filter (\<lambda>match. m_id match \<noteq> itemId)
        (case res of None \<Rightarrow> [] | Some matches \<Rightarrow> matches))"
  have eq: "recommendById w itemId topK = getMongoDBDocs w filteredMatches"
    using Inr by (simp add: recommendById_def filteredMatches_def)
  have len: "length filteredMatches \<le> topK"
    by (simp add: filteredMatches_def)
  have ids: "\<forall>m \<in> set filteredMatches. m_id m \<noteq> itemId"
    by (auto simp: filteredMatches_def dest: in_set_takeD)
  from getMongoDBDocs_sub [of w filteredMatches] len ids eq show ?thesis
    by (metis (no_types, lifting) image_iff le_trans subsetD)
qed

text \<open>
  The scenario of the specification: \<open>topK = 5\<close>, and the index returns six matches, the
  queried item \<open>X\<close> among them. The five others are returned.
\<close>

theorem recommendById_excludes_self_witness:
  "map rec_id (recommendById neighbours_world ''X'' 5) = [''n1'', ''n2'', ''n3'', ''n4'', ''n5''] \<and>
   length (recommendById neighbours_world ''X'' 5) \<le> 5 \<and>
   ''X'' \<notin> rec_id ` set (recommendById neighbours_world ''X'' 5)"
proof -
  have ids: "map rec_id (recommendById neighbours_world ''X'' 5)
          = [''n1'', ''n2'', ''n3'', ''n4'', ''n5'']"
    by code_simp
  from recommendById_excludes_self [of neighbours_world "''X''" 5]
  have "length (recommendById neighbours_world ''X'' 5) \<le> 5"
    and "''X'' \<notin> rec_id ` set (recommendById neighbours_world ''X'' 5)"
    by auto
  with ids show ?thesis by blast
qed

section \<open>Properties of the aggregation for one type\<close>

text \<open>
  Claim C3. If the sequel detector yields at least \<open>perTypeCount\<close> recommendations,
  \<open>getRecommendationsByType\<close> returns exactly the first \<open>perTypeCount\<close> of them and
  makes no call of \<open>recommendById\<close>: no vector query is performed, and every member of
  the bucket is a sequel recommendation.
\<close>

theorem sequel_priority:
  assumes "length (findSequelsAndSeries w contentData ct ucs) \<ge> perTypeCount"
  shows "getRecommendationsByType w contentData ct perTypeCount ucs
           = ([], Inr (take perTypeCount (findSequelsAndSeries w contentData ct ucs)))"
proof (cases "contentData = []")
  case True
  with assms show ?thesis
    by (simp add: getRecommendationsByType_def findSequelsAndSeries_def)
next
  case False
  with assms show ?thesis
    by (simp add: getRecommendationsByType_def getRecommendationsByType_try_def Let_def)
qed

theorem sequel_priority_witness:
  "length (findSequelsAndSeries rocky_world [Some (movie ''m2'' ''Rocky 2'' [''Drama''])]
             ''movie'' {''m2''}) \<ge> 1 \<and>
   getRecommendationsByType rocky_world [Some (movie ''m2'' ''Rocky 2'' [''Drama''])]
       ''movie'' 1 {''m2''}
     = ([], Inr [rocky4 (7 / 10)])"
proof -
  have seq: "findSequelsAndSeries rocky_world [Some (movie ''m2'' ''Rocky 2'' [''Drama''])]
               ''movie'' {''m2''}
             = [rocky4 (7 / 10),
                \<lparr>rec_id = ''m3'', rec_score = 6 / 10, rec_type = ''movie'',
                 rec_data = movie ''m3'' ''Rocky 3'' [''Drama'', ''Sport'']\<rparr>]"
    by code_simp
  then have h: "length (findSequelsAndSeries rocky_world
      [Some (movie ''m2'' ''Rocky 2'' [''Drama''])] ''movie'' {''m2''}) \<ge> 1"
    by simp
  from sequel_priority [OF h] seq h show ?thesis by simp
qed

lemma try_error_nonempty:
  "snd (getRecommendationsByType_try w contentData ct k ucs) = Inl error \<Longrightarrow> contentData \<noteq> []"
  by (auto simp: getRecommendationsByType_try_def Let_def findSequelsAndSeries_def
      split: if_splits sum.splits)

text \<open>
  Claim C10. If the \<open>try\<close> block of \<open>getRecommendationsByType\<close> throws, whatever the
  error, the function does not return the sequel recommendations: its handler refers to
  \<open>sequelRecs\<close>, which is not in scope there, so the function throws a \<open>ReferenceError\<close>
  to its caller; and the \<open>.catch\<close> of the caller makes the bucket of the type empty.
\<close>

theorem catch_out_of_scope:
  assumes "snd (getRecommendationsByType_try w contentData ct k ucs) = Inl error"
  shows "snd (getRecommendationsByType w contentData ct k ucs)
           = Inl (ReferenceError ''sequelRecs is not defined'') \<and>
         recommendations_of_type w contentData ct k ucs = []"
proof -
  from assms have ne: "contentData \<noteq> []" by (rule try_error_nonempty)
  with assms have "snd (getRecommendationsByType w contentData ct k ucs)
           = Inl (ReferenceError ''sequelRecs is not defined'')"
    by (cases "getRecommendationsByType_try w contentData ct k ucs")
      (simp add: getRecommendationsByType_def)
  then show ?thesis
    by (simp add: recommendations_of_type_def)
qed

text \<open>
  A run: the consumed items are Rocky 2 and an entry that is \<open>null\<close>. The sequel
  detector finds Rocky 4 and Rocky 3; the block then throws a \<open>TypeError\<close> at the
  \<open>null\<close> entry; the function throws, and the bucket is empty.
\<close>

theorem catch_out_of_scope_witness:
  "findSequelsAndSeries rocky_world [Some (movie ''m2'' ''Rocky 2'' [''Drama'']), None]
       ''movie'' {''m2''} \<noteq> [] \<and>
   snd (getRecommendationsByType_try rocky_world
          [Some (movie ''m2'' ''Rocky 2'' [''Drama'']), None] ''movie'' 10 {''m2''})
     = Inl (TypeError ''Cannot read properties of null (reading _id)'') \<and>
   snd (getRecommendationsByType rocky_world
          [Some (movie ''m2'' ''Rocky 2'' [''Drama'']), None] ''movie'' 10 {''m2''})
     = Inl (ReferenceError ''sequelRecs is not defined'') \<and>
   recommendations_of_type rocky_world
       [Some (movie ''m2'' ''Rocky 2'' [''Drama'']), None] ''movie'' 10 {''m2''} = []"
proof -
  have seq: "findSequelsAndSeries rocky_world [Some (movie ''m2'' ''Rocky 2'' [''Drama'']), None]
       ''movie'' {''m2''} \<noteq> []"
    by code_simp
  have h: "snd (getRecommendationsByType_try rocky_world
          [Some (movie ''m2'' ''Rocky 2'' [''Drama'']), None] ''movie'' 10 {''m2''})
     = Inl (TypeError ''Cannot read properties of null (reading _id)'')"
    by code_simp
  from catch_out_of_scope [OF h] seq h show ?thesis by blast
qed

text \<open>
  What does hold of every bucket: it has at most \<open>perTypeCount\<close> members, and none of
  them is in the set of consumed ids that was passed.
\<close>

lemma in_take_filter: "x \<in> set (take n (filter P xs)) \<Longrightarrow> P x"
  by (auto dest: in_set_takeD)

lemma getRecommendationsByType_try_sound:
  assumes "snd (getRecommendationsByType_try w cd ct k ucs) = Inr recs"
  shows "length recs \<le> k \<and> (\<forall>r \<in> set recs. rec_id r \<notin> ucs)"
proof -
  let ?seq = "findSequelsAndSeries w cd ct ucs"
  let ?P = "\<lambda>rec. rec_type rec \<noteq> [] \<and> rec_id rec \<noteq> [] \<and> rec_type rec = ct \<and>
                 rec_id rec \<notin> ucs \<and> \<not> list_ex (\<lambda>seqRec. rec_id seqRec = rec_id rec) ?seq"
  have seq: "\<forall>r \<in> set ?seq. rec_id r \<notin> ucs"
    using findSequelsAndSeries_unconsumed [of w cd ct ucs] by blast
  show ?thesis
  proof (cases "length ?seq \<ge> k")
    case True
    with assms have "recs = take k ?seq"
      by (simp add: getRecommendationsByType_try_def Let_def)
    with seq show ?thesis by (auto dest: in_set_takeD)
  next
    case False
    then have short: "length ?seq < k" by simp
    from assms False obtain sims where
      recs: "recs = ?seq \<or> recs = ?seq @ take (k - length ?seq) (filter ?P sims)"
      by (auto simp: getRecommendationsByType_try_def Let_def split: sum.splits if_splits)
    have sim: "\<forall>r \<in> set (take (k - length ?seq) (filter ?P sims)). rec_id r \<notin> ucs"
      using in_take_filter [of _ "k - length ?seq" ?P sims] by blast
    from recs show ?thesis
    proof
      assume "recs = ?seq"
      with seq short show ?thesis by simp
    next
      assume r: "recs = ?seq @ take (k - length ?seq) (filter ?P sims)"
      with short have "length recs \<le> k" by simp
      moreover from r have "set recs = set ?seq \<union> set (take (k - length ?seq) (filter ?P sims))"
        by simp
      with seq sim have "\<forall>r \<in> set recs. rec_id r \<notin> ucs"
        by blast
      ultimately show ?thesis by blast
    qed
  qed
qed

lemma recommendations_of_type_cases:
  "recommendations_of_type w cd ct k ucs = [] \<or>
   snd (getRecommendationsByType_try w cd ct k ucs) = Inr (recommendations_of_type w cd ct k ucs)"
proof (cases "getRecommendationsByType_try w cd ct k ucs")
  case (Pair calls outcome)
  then show ?thesis
    by (cases outcome) (simp_all add: recommendations_of_type_def getRecommendationsByType_def)
qed

lemma recommendations_of_type_sound:
  "length (recommendations_of_type w cd ct k ucs) \<le> k \<and>
   (\<forall>r \<in> set (recommendations_of_type w cd ct k ucs). rec_id r \<notin> ucs)"
  using recommendations_of_type_cases [of w cd ct k ucs]
proof
  assume "recommendations_of_type w cd ct k ucs = []"
  then show ?thesis by simp
next
  assume "snd (getRecommendationsByType_try w cd ct k ucs)
            = Inr (recommendations_of_type w cd ct k ucs)"
  then show ?thesis by (rule getRecommendationsByType_try_sound)
qed


section \<open>Properties of the recommendations for a user\<close>







text \<open>
  The buckets of a result: each has at most \<open>topK\<close> members, and no member of a bucket
  is among the ids that the user has consumed of that type.
\<close>

lemma recommendForUser_buckets_sound:
  assumes "recommendForUser w (Some (userId # others)) topK = Inr (Buckets b)"
  defines "userData \<equiv> extractUserContent w (getUserContentLists w userId)"
  shows "length (r_movies b) \<le> topK \<and> length (r_tvSeries b) \<le> topK \<and>
         length (r_animes b) \<le> topK \<and> length (r_games b) \<le> topK \<and>
         (\<forall>r \<in> set (r_movies b). rec_id r \<notin> set (filter (\<lambda>i. i \<noteq> []) (movies userData))) \<and>
         (\<forall>r \<in> set (r_tvSeries b). rec_id r \<notin> set (filter (\<lambda>i. i \<noteq> []) (tvSeries userData))) \<and>
         (\<forall>r \<in> set (r_animes b). rec_id r \<notin> set (filter (\<lambda>i. i \<noteq> []) (animes userData))) \<and>
         (\<forall>r \<in> set (r_games b). rec_id r \<notin> set (filter (\<lambda>i. i \<noteq> []) (games userData)))"
proof -
  from assms(1) have block: "recommendForUser_try w (Some (userId # others)) topK = Inr (Buckets b)"
    by (cases "recommendForUser_try w (Some (userId # others)) topK";
        cases "projl (recommendForUser_try w (Some (userId # others)) topK)")
      (simp_all add: recommendForUser_def)
  then obtain userLists where ul: "getUserContentLists w userId = Some userLists"
    by (auto simp: recommendForUser_try_def split: option.splits sum.splits)
  from block ul have b:
    "r_movies b = recommendations_of_type w (map Some (movieDetails userData)) ''movie'' topK
        (set (filter (\<lambda>i. i \<noteq> []) (movies userData)))"
    "r_tvSeries b = recommendations_of_type w (map Some (tvSeriesDetails userData)) ''tvseries'' topK
        (set (filter (\<lambda>i. i \<noteq> []) (tvSeries userData)))"
    "r_animes b = recommendations_of_type w (map Some (animeDetails userData)) ''anime'' topK
        (set (filter (\<lambda>i. i \<noteq> []) (animes userData)))"
    "r_games b = recommendations_of_type w (map Some (gameDetails userData)) ''game'' topK
        (set (filter (\<lambda>i. i \<noteq> []) (games userData)))"
    unfolding userData_def recommendForUser_try_def Let_def
    by (auto split: if_splits sum.splits)
  show ?thesis
    unfolding b using recommendations_of_type_sound by blast
qed


text \<open>
  Claim C1: in every bucket of a result no id appears twice, no id is in the consumed
  set of the type, and the bucket has at most \<open>topK\<close> members. The last two parts
  hold, as shown above. The first does not: for the user who has watched Rocky 2 and
  Rocky 3, each of the two finds Rocky 4 as a sequel, and with \<open>topK = 10\<close> the
  bucket of movies that \<open>recommendForUser\<close> returns holds Rocky 4 twice.
\<close>

theorem recommendForUser_duplicate_sequel:
  "recommendForUser rocky_world (Some [Id ''u1'']) 10 =
     Inr (Buckets \<lparr>r_movies = [rocky4 (7 / 10), rocky4 (6 / 10)], r_tvSeries = [],
                   r_animes = [], r_games = [],
                   r_all = [rocky4 (7 / 10), rocky4 (6 / 10)]\<rparr>)"
  by code_simp

section \<open>Properties of the retry helper\<close>

lemma withRetry_from_wait:
  assumes "\<forall>a \<in> {s..n}. isl (fn a)" "s \<le> n" "n < maxRetries"
  shows "n - s < length (waits (withRetry_from fn maxRetries iw s)) \<and>
         waits (withRetry_from fn maxRetries iw s) ! (n - s) = iw * (15 / 10) ^ (n - 1)"
  using assms
proof (induction "n - s" arbitrary: s)
  case 0
  then have s: "s = n" by simp
  from 0 s obtain e where e: "fn n = Inl e" by (auto simp: isl_def)
  from 0 s e show ?case
    by (subst (1 2) withRetry_from.simps) (simp add: Let_def)
next
  case (Suc d)
  then have lt: "s < n" by simp
  from Suc.prems(1) lt have "isl (fn s)" by (intro bspec [of _ _ s]) auto
  then obtain e where e: "fn s = Inl e" by (auto simp: isl_def)
  have IH: "n - Suc s < length (waits (withRetry_from fn maxRetries iw (Suc s))) \<and>
         waits (withRetry_from fn maxRetries iw (Suc s)) ! (n - Suc s) = iw * (15 / 10) ^ (n - 1)"
    using Suc.hyps(1) [of "Suc s"] Suc.hyps(2) Suc.prems lt by auto
  have idx: "n - s = Suc (n - Suc s)" using lt by simp
  from lt Suc.prems(3) have sm: "s < maxRetries" "s \<le> maxRetries" by simp_all
  show ?case
    using IH e sm unfolding idx
    by (subst (1 2) withRetry_from.simps) (simp add: Let_def)
qed

lemma withRetry_from_exhaust:
  assumes "\<forall>a \<in> {s..maxRetries}. isl (fn a)" "s \<le> Suc maxRetries"
  shows "calls (withRetry_from fn maxRetries iw s) = Suc maxRetries - s \<and>
         isl (outcome (withRetry_from fn maxRetries iw s))"
  using assms
proof (induction "Suc maxRetries - s" arbitrary: s)
  case 0
  then have "\<not> s \<le> maxRetries" by simp
  then show ?case
    by (subst (1 2) withRetry_from.simps) simp
next
  case (Suc d)
  then have le: "s \<le> maxRetries" by simp
  with Suc.prems(1) have "isl (fn s)" by (intro bspec [of _ _ s]) auto
  then obtain e where e: "fn s = Inl e" by (auto simp: isl_def)
  have IH: "calls (withRetry_from fn maxRetries iw (Suc s)) = Suc maxRetries - Suc s \<and>
         isl (outcome (withRetry_from fn maxRetries iw (Suc s)))"
    using Suc.hyps(1) [of "Suc s"] Suc.hyps(2) Suc.prems le by auto
  show ?case
    using IH e le
    by (subst (1 2) withRetry_from.simps) (auto simp: Let_def)
qed


lemma first_three_waits:
  assumes "\<forall>a \<in> {1..3}. isl (fn a)" "3 < maxRetries"
  shows "take 3 (waits (withRetry fn maxRetries 4400)) = [4400, 6600, 9900]"
proof -
  let ?ws = "waits (withRetry_from fn maxRetries 4400 1)"
  have f1: "\<forall>a \<in> {1..1}. isl (fn a)" and f2: "\<forall>a \<in> {1..2}. isl (fn a)"
    using assms(1) by auto
  from withRetry_from_wait [of 1 1 fn maxRetries 4400] f1 assms(2)
  have w0: "?ws ! 0 = 4400" by simp
  from withRetry_from_wait [of 1 2 fn maxRetries 4400] f2 assms(2)
  have w1: "?ws ! 1 = 6600" by simp
  from withRetry_from_wait [of 1 3 fn maxRetries 4400] assms
  have w2: "2 < length ?ws" "?ws ! 2 = 9900" by (simp_all add: power2_eq_square)
  from w2(1) obtain a b c rest where ws: "?ws = a # b # c # rest"
    by (cases ?ws; cases "tl ?ws"; cases "tl (tl ?ws)") auto
  then have "take 3 ?ws = [?ws ! 0, ?ws ! 1, ?ws ! 2]"
    by (simp add: numeral_3_eq_3 numeral_2_eq_2)
  with w0 w1 w2(2) show ?thesis by (simp add: withRetry_def)
qed

text \<open>
  Claim C8. Whatever the errors of the attempts 1 to \<open>n\<close> are (rate limit, timeout or
  any other), if another attempt is left then the wait after attempt \<open>n\<close> is
  \<open>initialWait * 1.5 ^ (n - 1)\<close>; with \<open>initialWait = 4400\<close> the waits after the
  attempts 1, 2 and 3 are 4400, 6600 and 9900 ms; and when all \<open>maxRetries\<close> attempts
  fail, \<open>fn\<close> has been called \<open>maxRetries\<close> times, whatever the errors, and
  \<open>withRetry\<close> throws.
\<close>

theorem withRetry_backoff:
  "((\<forall>a \<in> {1..n}. isl (fn a)) \<and> 1 \<le> n \<and> n < maxRetries \<longrightarrow>
      n \<le> length (waits (withRetry fn maxRetries iw)) \<and>
      waits (withRetry fn maxRetries iw) ! (n - 1) = iw * (15 / 10) ^ (n - 1)) \<and>
   ((\<forall>a \<in> {1..3}. isl (fn a)) \<and> 3 < maxRetries \<longrightarrow>
      take 3 (waits (withRetry fn maxRetries 4400)) = [4400, 6600, 9900]) \<and>
   ((\<forall>a \<in> {1..maxRetries}. isl (fn a)) \<longrightarrow>
      calls (withRetry fn maxRetries iw) = maxRetries \<and>
      isl (outcome (withRetry fn maxRetries iw)))"
proof (intro conjI impI)
  assume h: "(\<forall>a \<in> {1..n}. isl (fn a)) \<and> 1 \<le> n \<and> n < maxRetries"
  with withRetry_from_wait [of 1 n fn maxRetries iw]
  have "n - 1 < length (waits (withRetry_from fn maxRetries iw 1)) \<and>
        waits (withRetry_from fn maxRetries iw 1) ! (n - 1) = iw * (15 / 10) ^ (n - 1)"
    by blast
  with h show "n \<le> length (waits (withRetry fn maxRetries iw))"
    and "waits (withRetry fn maxRetries iw) ! (n - 1) = iw * (15 / 10) ^ (n - 1)"
    by (auto simp: withRetry_def)
next
  assume "(\<forall>a \<in> {1..3}. isl (fn a)) \<and> 3 < maxRetries"
  then show "take 3 (waits (withRetry fn maxRetries 4400)) = [4400, 6600, 9900]"
    using first_three_waits [of fn maxRetries] by blast
next
  assume h: "\<forall>a \<in> {1..maxRetries}. isl (fn a)"
  with withRetry_from_exhaust [of 1 maxRetries fn iw]
  show "calls (withRetry fn maxRetries iw) = maxRetries"
    and "isl (outcome (withRetry fn maxRetries iw))"
    by (simp_all add: withRetry_def)
qed

text \<open>
  Three runs with five attempts: three failures of the three kinds and then success;
  errors of another kind throughout, where the last error is thrown at once; timeouts
  throughout, where a fifth wait precedes the final error.
\<close>

theorem withRetry_backoff_witness:
  "withRetry three_failures 5 4400
     = \<lparr>waits = [4400, 6600, 9900], calls = 4, outcome = Inr ()\<rparr> \<and>
   withRetry (\<lambda>a. Inl other_error :: js_error + unit) 5 4400
     = \<lparr>waits = [4400, 6600, 9900, 14850], calls = 5, outcome = Inl other_error\<rparr> \<and>
   withRetry (\<lambda>a. Inl timeout_error :: js_error + unit) 5 4400
     = \<lparr>waits = [4400, 6600, 9900, 14850, 22275], calls = 5,
        outcome = Inl (Error ''Failed after 5 retries'')\<rparr>"
proof -
  have run: "withRetry three_failures 5 4400
     = \<lparr>waits = [4400, 6600, 9900], calls = 4, outcome = Inr ()\<rparr>"
    by code_simp
  have f3: "(\<forall>a \<in> {1..3}. isl (three_failures a)) \<and> 1 \<le> (3::nat) \<and> (3::nat) < 5"
    by (simp add: three_failures_def)
  have all: "\<forall>a \<in> {1..5}. isl (Inl other_error :: js_error + unit)"
    by simp
  have other: "outcome (withRetry (\<lambda>a. Inl other_error :: js_error + unit) 5 4400) = Inl other_error"
    "waits (withRetry (\<lambda>a. Inl other_error :: js_error + unit) 5 4400) = [4400, 6600, 9900, 14850]"
    by code_simp+
  have timeout: "withRetry (\<lambda>a. Inl timeout_error :: js_error + unit) 5 4400
     = \<lparr>waits = [4400, 6600, 9900, 14850, 22275], calls = 5,
        outcome = Inl (Error ''Failed after 5 retries'')\<rparr>"
    by code_simp
  from withRetry_backoff [of 3 three_failures 5 4400] f3
  have "waits (withRetry three_failures 5 4400) ! 2 = 9900" by (simp add: power2_eq_square)
  from withRetry_backoff [of 3 "\<lambda>a. Inl other_error :: js_error + unit" 5 4400] all
  have "calls (withRetry (\<lambda>a. Inl other_error :: js_error + unit) 5 4400) = 5" by blast
  with other have "withRetry (\<lambda>a. Inl other_error :: js_error + unit) 5 4400
     = \<lparr>waits = [4400, 6600, 9900, 14850], calls = 5, outcome = Inl other_error\<rparr>"
    by (cases "withRetry (\<lambda>a. Inl other_error :: js_error + unit) 5 4400") simp
  with run timeout show ?thesis by blast
qed


section \<open>Properties of the ingestion of a collection\<close>

lemma attempt_of_value:
  "outcome (withRetry_from (attempt_of errors v) m iw s) = Inr x \<Longrightarrow> x = v"
proof (induction "Suc m - s" arbitrary: s)
  case 0
  then have "\<not> s \<le> m" by simp
  with 0 show ?case
    by (subst (asm) withRetry_from.simps) simp
next
  case (Suc d)
  then have le: "s \<le> m" by simp
  from Suc.hyps(1) [of "Suc s"] Suc.hyps(2)
  have IH: "outcome (withRetry_from (attempt_of errors v) m iw (Suc s)) = Inr x \<Longrightarrow> x = v"
    by simp
  show ?case
  proof (cases "errors s")
    case None
    with Suc.prems le show ?thesis
      by (subst (asm) withRetry_from.simps) (simp add: attempt_of_def)
  next
    case (Some e)
    with Suc.prems le have "outcome (withRetry_from (attempt_of errors v) m iw (Suc s)) = Inr x"
      by (subst (asm) withRetry_from.simps)
        (simp add: attempt_of_def Let_def split: if_splits)
    then show ?thesis by (rule IH)
  qed
qed

lemma read_batch_value:
  "read_batch w b skip = Inr batch \<Longrightarrow> batch = take 50 (drop skip (documents w))"
  unfolding read_batch_def withRetry_def by (rule attempt_of_value)

lemma ingest_round_failure:
  assumes "read_batch w (Suc (batchNum st)) (processed st) = Inr batch" "batch \<noteq> []"
    and "build_documents w batch = Inr docs"
    and "processBatch w (Suc (batchNum st)) docs = Inl err"
  shows "ingest_round w st =
           Inr (if failedAttempts st \<ge> 4
                then st\<lparr>batchNum := Suc (batchNum st),
                        processed := processed st + length batch, failedAttempts := 0\<rparr>
                else st\<lparr>batchNum := Suc (batchNum st),
                        failedAttempts := Suc (failedAttempts st)\<rparr>)"
  using assms by (simp add: ingest_round_def Let_def)


lemma rounds_five_failures:
  assumes fa: "failedAttempts st = 0"
    and rd: "\<forall>i \<in> {1..5}. read_batch w (batchNum st + i) (processed st) = Inr batch"
    and ne: "batch \<noteq> []"
    and bd: "build_documents w batch = Inr docs"
    and pb: "\<forall>i \<in> {1..5}. isl (processBatch w (batchNum st + i) docs)"
  shows "rounds 5 w st =
           Inr (st\<lparr>batchNum := batchNum st + 5, processed := processed st + length batch\<rparr>)"
proof -
  have step: "ingest_round w s =
           Inr (if failedAttempts s \<ge> 4
                then s\<lparr>batchNum := Suc (batchNum s),
                       processed := processed s + length batch, failedAttempts := 0\<rparr>
                else s\<lparr>batchNum := Suc (batchNum s),
                       failedAttempts := Suc (failedAttempts s)\<rparr>)"
    if "processed s = processed st" "batchNum s = batchNum st + k" "k < 5" for s k
  proof -
    from that have i: "Suc k \<in> {1..5}" by simp
    from rd i that have r: "read_batch w (Suc (batchNum s)) (processed s) = Inr batch"
      by (metis add_Suc_right)
    from pb i that obtain err where "processBatch w (Suc (batchNum s)) docs = Inl err"
      by (metis add_Suc_right isl_def)
    from ingest_round_failure [OF r ne bd this] show ?thesis .
  qed
  define s1 where "s1 = st\<lparr>batchNum := Suc (batchNum st), failedAttempts := 1\<rparr>"
  define s2 where "s2 = st\<lparr>batchNum := batchNum st + 2, failedAttempts := 2\<rparr>"
  define s3 where "s3 = st\<lparr>batchNum := batchNum st + 3, failedAttempts := 3\<rparr>"
  define s4 where "s4 = st\<lparr>batchNum := batchNum st + 4, failedAttempts := 4\<rparr>"
  define s5 where "s5 = st\<lparr>batchNum := batchNum st + 5, processed := processed st + length batch\<rparr>"
  have r1: "ingest_round w st = Inr s1"
    using step [of st 0] fa by (simp add: s1_def)
  have r2: "ingest_round w s1 = Inr s2"
    using step [of s1 1] by (simp add: s1_def s2_def)
  have r3: "ingest_round w s2 = Inr s3"
    using step [of s2 2] by (simp add: s2_def s3_def)
  have r4: "ingest_round w s3 = Inr s4"
    using step [of s3 3] by (simp add: s3_def s4_def)
  have r5: "ingest_round w s4 = Inr s5"
    using step [of s4 4] fa by (simp add: s4_def s5_def)
  have "rounds 5 w st = Inr s5"
    by (simp add: numeral_eq_Suc r1 r2 r3 r4 r5)
  then show ?thesis by (simp add: s5_def)
qed


lemma ingest_round_unreachable:
  "ingest_round unreachable_world st = Inr (st\<lparr>batchNum := batchNum st + 1\<rparr>)"
proof -
  have "read_batch unreachable_world b skip = Inl other_error" for b skip
    unfolding read_batch_def withRetry_def
    by (simp add: withRetry_from.simps attempt_of_def unreachable_world_def Let_def
        other_error_def is_rate_limit_def is_timeout_def Error_def)
  then show ?thesis
    by (simp add: ingest_round_def Let_def)
qed

lemma ingest_loop_unreachable: "ingest_loop unreachable_world st = None"
proof (rule ccontr)
  assume "ingest_loop unreachable_world st \<noteq> None"
  then obtain y where y: "ingest_loop unreachable_world st = Some y" by blast
  have "w \<noteq> unreachable_world" if "ingest_loop w s = Some z" for w s z
  proof (rule ingest_loop.raw_induct [where P = "\<lambda>w s z. w \<noteq> unreachable_world", OF _ that])
    fix f w s' z'
    assume IH: "\<And>w s z. f w s = Some z \<Longrightarrow> w \<noteq> unreachable_world"
      and step: "(case ingest_round w s' of Inl final \<Rightarrow> Some final | Inr nxt \<Rightarrow> f w nxt) = Some z'"
    show "w \<noteq> unreachable_world"
    proof
      assume "w = unreachable_world"
      with step have "f unreachable_world (s'\<lparr>batchNum := batchNum s' + 1\<rparr>) = Some z'"
        by (simp add: ingest_round_unreachable)
      from IH [OF this] show False by simp
    qed
  qed
  with y show False by blast
qed

text \<open>
  Claim C9, as stated, ends with: ingestion of a finite collection always reaches
  completion. That fails. When the store cannot be read, the loop retries the read of
  the same batch for ever: reading a batch is not counted among the failures that lead
  to a skip. With three documents in the collection, \<open>ingestCollection\<close> does not
  return.
\<close>

theorem ingestCollection_never_returns: "ingestCollection unreachable_world = None"
proof -
  have "count_error unreachable_world = None"
    by (simp add: unreachable_world_def)
  then show ?thesis
    by (simp add: ingestCollection_def ingest_loop_unreachable)
qed

lemma read_batch_empty_iff:
  "take 50 (drop skip docs) = [] \<longleftrightarrow> length docs \<le> skip"
  by auto

lemma build_documents_succeeds:
  "\<forall>doc \<in> set batch. c_id doc \<noteq> None \<and> \<not> isl (build_text w doc) \<Longrightarrow>
   \<exists>docs. build_documents w batch = Inr docs"
proof (induction batch)
  case Nil
  show ?case by simp
next
  case (Cons doc batch)
  then obtain docs ident tx where "build_documents w batch = Inr docs"
    "c_id doc = Some ident" "build_text w doc = Inr tx"
    by (cases "build_text w doc") auto
  then show ?case by simp
qed

lemma ingest_round_read_fails:
  "isl (read_batch w (batchNum st + 1) (processed st)) \<Longrightarrow>
   ingest_round w st = Inr (st\<lparr>batchNum := batchNum st + 1\<rparr>)"
  by (cases "read_batch w (batchNum st + 1) (processed st)") (simp_all add: ingest_round_def Let_def)

lemma ingest_round_progress:
  assumes builds: "\<forall>doc \<in> set (documents w). c_id doc \<noteq> None \<and> \<not> isl (build_text w doc)"
    and fa: "failedAttempts st < 5"
    and rd: "\<not> isl (read_batch w (batchNum st + 1) (processed st))"
  shows "case ingest_round w st of
           Inl final \<Rightarrow> length (documents w) \<le> processed final
         | Inr nxt \<Rightarrow> failedAttempts nxt < 5 \<and> fuel w nxt < fuel w st"
proof -
  from rd obtain batch where rb: "read_batch w (batchNum st + 1) (processed st) = Inr batch"
    by (cases "read_batch w (batchNum st + 1) (processed st)") auto
  then have batch: "batch = take 50 (drop (processed st) (documents w))"
    by (rule read_batch_value)
  show ?thesis
  proof (cases "batch = []")
    case True
    with rb batch show ?thesis
      by (simp add: ingest_round_def Let_def)
  next
    case False
    with batch have lt: "processed st < length (documents w)" "0 < length batch"
      by auto
    then have less: "5 * (length (documents w) - (processed st + length batch)) + 5
        \<le> 5 * (length (documents w) - processed st)"
      by arith
    from batch have "set batch \<subseteq> set (documents w)"
      by (metis set_drop_subset set_take_subset subset_trans)
    with builds have "\<forall>doc \<in> set batch. c_id doc \<noteq> None \<and> \<not> isl (build_text w doc)"
      by blast
    from build_documents_succeeds [OF this]
    obtain docs where bd: "build_documents w batch = Inr docs" by blast
    show ?thesis
    proof (cases "processBatch w (batchNum st + 1) docs")
      case (Inl err)
      with rb False bd less fa show ?thesis
        by (auto simp: ingest_round_def Let_def fuel_def)
    next
      case (Inr ids)
      with rb False bd less fa show ?thesis
        by (auto simp: ingest_round_def Let_def fuel_def)
    qed
  qed
qed

lemma ingest_loop_returns:
  assumes reads: "\<forall>b. \<exists>b' \<ge> b. \<forall>skip. \<not> isl (read_batch w b' skip)"
    and builds: "\<forall>doc \<in> set (documents w). c_id doc \<noteq> None \<and> \<not> isl (build_text w doc)"
  shows "failedAttempts st < 5 \<Longrightarrow>
         \<exists>final. ingest_loop w st = Some final \<and> length (documents w) \<le> processed final"
proof (induction "fuel w st" arbitrary: st rule: less_induct)
  case less
  define good where "good b \<longleftrightarrow> (\<forall>skip. \<not> isl (read_batch w b skip))" for b :: nat
  define waiting where "waiting b = (LEAST d :: nat. good (Suc b + d))" for b :: nat
  have ex: "\<exists>d. good (b + d)" for b
  proof -
    from reads obtain b' where "b' \<ge> b" "good b'" unfolding good_def by blast
    then have "good (b + (b' - b))" by simp
    then show ?thesis ..
  qed
  have shift: "waiting b = Suc (waiting (Suc b))" if "\<not> good (Suc b)" for b
  proof -
    from ex [of "Suc b"] obtain d where d: "good (Suc b + d)" ..
    from that have n0: "\<not> good (Suc b + 0)" by simp
    have "(LEAST d. good (Suc b + d)) = Suc (LEAST m. good (Suc b + Suc m))"
      using d n0 by (rule Least_Suc)
    then show ?thesis by (simp add: waiting_def)
  qed
  have inner: "\<exists>final. ingest_loop w s = Some final \<and> length (documents w) \<le> processed final"
    if "failedAttempts s < 5" "fuel w s = fuel w st" for s
    using that
  proof (induction "waiting (batchNum s)" arbitrary: s rule: less_induct)
    case inner: less
    show ?case
    proof (cases "isl (read_batch w (batchNum s + 1) (processed s))")
      case True
      then have "\<not> good (Suc (batchNum s))" by (auto simp: good_def)
      from shift [OF this] have w: "waiting (Suc (batchNum s)) < waiting (batchNum s)" by simp
      from True have r: "ingest_round w s = Inr (s\<lparr>batchNum := batchNum s + 1\<rparr>)"
        by (rule ingest_round_read_fails)
      from inner.hyps [of "s\<lparr>batchNum := batchNum s + 1\<rparr>"] w inner.prems
      have "\<exists>final. ingest_loop w (s\<lparr>batchNum := batchNum s + 1\<rparr>) = Some final \<and>
          length (documents w) \<le> processed final"
        by (simp add: fuel_def)
      with r show ?thesis
        by (subst ingest_loop.simps) simp
    next
      case False
      note progress = ingest_round_progress [OF builds inner.prems(1) False]
      show ?thesis
      proof (cases "ingest_round w s")
        case (Inl final)
        with progress show ?thesis
          by (subst ingest_loop.simps) simp
      next
        case (Inr nxt)
        with progress have "failedAttempts nxt < 5" "fuel w nxt < fuel w st"
          using inner.prems(2) by simp_all
        from less.hyps [OF this(2) this(1)] Inr show ?thesis
          by (subst ingest_loop.simps) simp
      qed
    qed
  qed
  from inner [of st] less.prems show ?case by simp
qed


text \<open>
  Claim C9, amended. A batch whose processing fails in 5 consecutive rounds is skipped:
  after the fifth round its records are counted as processed, nothing has been upserted,
  the failure counter is 0 again, and the loop goes on with the next batch. When
  \<open>countDocuments\<close> succeeds, no read of a batch keeps failing for ever (after every
  round there is a later round whose read succeeds), and every document has an id and a
  text that can be built, the ingestion of the collection returns, with all documents
  counted as processed.
\<close>

theorem batch_skip_and_completion:
  "(failedAttempts st = 0 \<and> batch \<noteq> [] \<and>
    (\<forall>i \<in> {1..5}. read_batch w (batchNum st + i) (processed st) = Inr batch) \<and>
    build_documents w batch = Inr docs \<and>
    (\<forall>i \<in> {1..5}. isl (processBatch w (batchNum st + i) docs))
    \<longrightarrow> (\<exists>st'. rounds 5 w st = Inr st' \<and>
               processed st' = processed st + length batch \<and>
               failedAttempts st' = 0 \<and>
               upserted st' = upserted st \<and>
               batchNum st' = batchNum st + 5)) \<and>
   (count_error w = None \<and>
    (\<forall>b. \<exists>b' \<ge> b. \<forall>skip. \<not> isl (read_batch w b' skip)) \<and>
    (\<forall>doc \<in> set (documents w). c_id doc \<noteq> None \<and> \<not> isl (build_text w doc))
    \<longrightarrow> (\<exists>final. ingestCollection w = Some final \<and>
                 length (documents w) \<le> processed final))"
proof (intro conjI impI)
  assume h: "failedAttempts st = 0 \<and> batch \<noteq> [] \<and>
    (\<forall>i \<in> {1..5}. read_batch w (batchNum st + i) (processed st) = Inr batch) \<and>
    build_documents w batch = Inr docs \<and>
    (\<forall>i \<in> {1..5}. isl (processBatch w (batchNum st + i) docs))"
  then have "rounds 5 w st =
      Inr (st\<lparr>batchNum := batchNum st + 5, processed := processed st + length batch\<rparr>)"
    by (intro rounds_five_failures) blast+
  with h show "\<exists>st'. rounds 5 w st = Inr st' \<and>
               processed st' = processed st + length batch \<and>
               failedAttempts st' = 0 \<and>
               upserted st' = upserted st \<and>
               batchNum st' = batchNum st + 5"
    by simp
next
  assume h: "count_error w = None \<and>
    (\<forall>b. \<exists>b' \<ge> b. \<forall>skip. \<not> isl (read_batch w b' skip)) \<and>
    (\<forall>doc \<in> set (documents w). c_id doc \<noteq> None \<and> \<not> isl (build_text w doc))"
  then have "\<exists>final. ingest_loop w initial_state = Some final \<and>
      length (documents w) \<le> processed final"
    by (intro ingest_loop_returns) (simp_all add: initial_state_def)
  with h show "\<exists>final. ingestCollection w = Some final \<and>
                 length (documents w) \<le> processed final"
    by (simp add: ingestCollection_def)
qed

lemma refusing_world_reads:
  "read_batch refusing_world b skip = Inr (take 50 (drop skip rocky_movies))"
  unfolding read_batch_def withRetry_def
  by (subst withRetry_from.simps) (simp add: attempt_of_def refusing_world_def)

lemma refusing_world_fails: "processBatch refusing_world b docs = Inl other_error"
proof -
  have "outcome (withRetry (attempt_of (\<lambda>a. Some other_error) ()) 5 4400) = Inl other_error"
    by code_simp
  then show ?thesis
    by (simp add: processBatch_def refusing_world_def)
qed

text \<open>
  A run: the embedding service refuses every call. The only batch fails five times and
  is skipped, and the ingestion returns in the sixth round.
\<close>

theorem batch_skip_and_completion_witness:
  "(\<exists>st'. rounds 5 refusing_world initial_state = Inr st' \<and>
          processed st' = 3 \<and> failedAttempts st' = 0 \<and> upserted st' = [] \<and> batchNum st' = 5) \<and>
   (\<exists>final. ingestCollection refusing_world = Some final \<and> 3 \<le> processed final) \<and>
   ingestCollection refusing_world
     = Some \<lparr>processed = 3, failedAttempts = 0, batchNum = 6, upserted = []\<rparr>"
proof -
  have run: "ingestCollection refusing_world
     = Some \<lparr>processed = 3, failedAttempts = 0, batchNum = 6, upserted = []\<rparr>"
    by code_simp
  have docs: "build_documents refusing_world rocky_movies
      = Inr [(''m2'', ''Rocky 2''), (''m3'', ''Rocky 3''), (''m4'', ''Rocky 4'')]"
    by code_simp
  have h1: "failedAttempts initial_state = 0 \<and> rocky_movies \<noteq> [] \<and>
    (\<forall>i \<in> {1..5}. read_batch refusing_world (batchNum initial_state + i)
        (processed initial_state) = Inr rocky_movies) \<and>
    build_documents refusing_world rocky_movies
      = Inr [(''m2'', ''Rocky 2''), (''m3'', ''Rocky 3''), (''m4'', ''Rocky 4'')] \<and>
    (\<forall>i \<in> {1..5}. isl (processBatch refusing_world (batchNum initial_state + i)
        [(''m2'', ''Rocky 2''), (''m3'', ''Rocky 3''), (''m4'', ''Rocky 4'')]))"
    using docs
    by (simp add: refusing_world_reads refusing_world_fails initial_state_def rocky_movies_def)
  have reads: "\<forall>b. \<exists>b' \<ge> b. \<forall>skip. \<not> isl (read_batch refusing_world b' skip)"
    by (simp add: refusing_world_reads) blast
  have "count_error refusing_world = None"
    and "\<forall>doc \<in> set (documents refusing_world).
        c_id doc \<noteq> None \<and> \<not> isl (build_text refusing_world doc)"
    by (simp_all add: refusing_world_def rocky_movies_def movie_def)
  with reads have h2: "count_error refusing_world = None \<and>
    (\<forall>b. \<exists>b' \<ge> b. \<forall>skip. \<not> isl (read_batch refusing_world b' skip)) \<and>
    (\<forall>doc \<in> set (documents refusing_world).
        c_id doc \<noteq> None \<and> \<not> isl (build_text refusing_world doc))"
    by blast
  have sizes: "length rocky_movies = 3" "documents refusing_world = rocky_movies"
    "processed initial_state = 0" "upserted initial_state = []" "batchNum initial_state = 0"
    by (simp_all add: rocky_movies_def refusing_world_def initial_state_def)
  from batch_skip_and_completion
    [of initial_state rocky_movies refusing_world
      "[(''m2'', ''Rocky 2''), (''m3'', ''Rocky 3''), (''m4'', ''Rocky 4'')]"]
    h1 h2
  have "(\<exists>st'. rounds 5 refusing_world initial_state = Inr st' \<and>
          processed st' = processed initial_state + length rocky_movies \<and>
          failedAttempts st' = 0 \<and> upserted st' = upserted initial_state \<and>
          batchNum st' = batchNum initial_state + 5) \<and>
        (\<exists>final. ingestCollection refusing_world = Some final \<and>
          length (documents refusing_world) \<le> processed final)"
    by blast
  then have "(\<exists>st'. rounds 5 refusing_world initial_state = Inr st' \<and>
          processed st' = 3 \<and> failedAttempts st' = 0 \<and> upserted st' = [] \<and> batchNum st' = 5) \<and>
   (\<exists>final. ingestCollection refusing_world = Some final \<and> 3 \<le> processed final)"
    by (simp add: sizes)
  with run show ?thesis by blast
qed

end
